theory Spec2Isabelle
  imports Main "HOL-Library.Sublist"
begin

section \<open>Data model\<close>

text \<open>
  Strings are Python strings in their UTF-8 encoding. \<^verbatim>\<open>str.upper()\<close> is a builtin of
  Python, not code of this repository: it is the parameter \<open>upper\<close> of every definition
  that calls it, and every theorem holds for every function in its place.
\<close>

type_synonym str_upper = "string \<Rightarrow> string"

text \<open>
  One element of the list stored in \<^verbatim>\<open>iso_4217_currency_codes.json\<close>. A field is \<open>None\<close>
  when the entry does not have the key; a key that is there holds a string, except that
  \<^verbatim>\<open>AlphabeticCode\<close>, which the code reads with \<^verbatim>\<open>entry.get(...)\<close> and compares with
  \<^verbatim>\<open>None\<close>, is \<open>None\<close> also when it holds JSON \<^verbatim>\<open>null\<close>. \<^verbatim>\<open>Owner\<close> and \<^verbatim>\<open>Primary\<close> are
  read with \<^verbatim>\<open>entry.get(...)\<close> and used as a truth value.
\<close>

record entry =
  Entity :: "string option"
  Currency :: "string option"
  AlphabeticCode :: "string option"
  Owner :: bool
  Primary :: bool

text \<open>
  The message of an \<^verbatim>\<open>FxCodesException\<close> is an f-string; it is kept as the parts of that
  f-string, because the text Python prints for a set depends on the iteration order of
  the set.
\<close>

datatype part = Text string | Quoted string | SetRepr "string set"

text \<open>
  The exceptions: the one class of the module, \<^verbatim>\<open>class FxCodesException(Exception): pass\<close>,
  and the \<^verbatim>\<open>KeyError\<close> of \<^verbatim>\<open>entry[key]\<close> on an entry without the key.
\<close>

datatype fx_error = FxCodesException "part list" | KeyError string

definition and_then :: "fx_error + 'a \<Rightarrow> ('a \<Rightarrow> fx_error + 'b) \<Rightarrow> fx_error + 'b" where
  "and_then r f = (case r of Inl e \<Rightarrow> Inl e | Inr v \<Rightarrow> f v)"

text \<open>\<^verbatim>\<open>entry[key]\<close>.\<close>

definition subscript :: "string \<Rightarrow> 'a option \<Rightarrow> fx_error + 'a" where
  "subscript key field = (case field of None \<Rightarrow> Inl (KeyError key) | Some v \<Rightarrow> Inr v)"

definition JSON_CURRENCY_ISO :: "entry \<Rightarrow> fx_error + string" where
  "JSON_CURRENCY_ISO entry = subscript ''AlphabeticCode'' (AlphabeticCode entry)"

definition JSON_CURRENCY :: "entry \<Rightarrow> fx_error + string" where
  "JSON_CURRENCY entry = subscript ''Currency'' (Currency entry)"

definition JSON_COUNTRY :: "entry \<Rightarrow> fx_error + string" where
  "JSON_COUNTRY entry = subscript ''Entity'' (Entity entry)"

subsection \<open>Dictionaries\<close>

text \<open>\<^verbatim>\<open>d[k] = v\<close>: a later pair overwrites an earlier one.\<close>

definition dict_put :: "'k \<times> 'v \<Rightarrow> ('k \<rightharpoonup> 'v) \<Rightarrow> ('k \<rightharpoonup> 'v)" where
  "dict_put kv d = (case kv of (k, v) \<Rightarrow> d(k \<mapsto> v))"

text \<open>
  \<^verbatim>\<open>defaultdict(set)\<close>: \<^verbatim>\<open>d[k]\<close> stores the empty set under a missing key before
  returning it, \<^verbatim>\<open>d.get(k)\<close> only reads.
\<close>

definition dd_getitem :: "('k \<rightharpoonup> 'v set) \<Rightarrow> 'k \<Rightarrow> 'v set \<times> ('k \<rightharpoonup> 'v set)" where
  "dd_getitem d k = (case d k of None \<Rightarrow> ({}, d(k \<mapsto> {})) | Some s \<Rightarrow> (s, d))"

definition dd_get :: "('k \<rightharpoonup> 'v set) \<Rightarrow> 'k \<Rightarrow> 'v set option \<times> ('k \<rightharpoonup> 'v set)" where
  "dd_get d k = (d k, d)"

text \<open>\<^verbatim>\<open>d[k].add(v)\<close>.\<close>

definition dd_add :: "'k \<times> 'v \<Rightarrow> ('k \<rightharpoonup> 'v set) \<Rightarrow> ('k \<rightharpoonup> 'v set)" where
  "dd_add kv d = (case kv of (k, v) \<Rightarrow> (case dd_getitem d k of (s, d') \<Rightarrow> d'(k \<mapsto> insert v s)))"

text \<open>
  A comprehension or a \<^verbatim>\<open>for\<close> loop over the entries: \<open>item\<close> computes the key and the
  value of an entry, or raises; \<open>step\<close> stores them. The first entry that raises ends the
  loop with its exception.
\<close>

fun for_each ::
  "('x \<Rightarrow> fx_error + 'kv) \<Rightarrow> ('kv \<Rightarrow> 'm \<Rightarrow> 'm) \<Rightarrow> 'x list \<Rightarrow> 'm \<Rightarrow> fx_error + 'm" where
  "for_each item step [] m = Inr m"
| "for_each item step (x # xs) m =
     and_then (item x) (\<lambda>kv. for_each item step xs (step kv m))"

section \<open>The comprehensions of class FxCodes\<close>

text \<open>Each takes the value of \<^verbatim>\<open>self.json_data\<close>. A key is computed before its value.\<close>

definition load_entries :: "entry list \<Rightarrow> entry list" where
  "load_entries data = filter (\<lambda>entry. AlphabeticCode entry \<noteq> None) data"

definition currency_to_currency_iso_dict ::
  "str_upper \<Rightarrow> entry list \<Rightarrow> fx_error + (string \<rightharpoonup> string)" where
  "currency_to_currency_iso_dict upper jd =
     for_each
       (\<lambda>entry. and_then (JSON_CURRENCY entry) (\<lambda>currency.
                 and_then (JSON_CURRENCY_ISO entry) (\<lambda>code. Inr (upper currency, code))))
       dict_put jd Map.empty"

definition currency_iso_to_currency_dict :: "entry list \<Rightarrow> fx_error + (string \<rightharpoonup> string)" where
  "currency_iso_to_currency_dict jd =
     for_each
       (\<lambda>entry. and_then (JSON_CURRENCY_ISO entry) (\<lambda>code.
                 and_then (JSON_CURRENCY entry) (\<lambda>currency. Inr (code, currency))))
       dict_put jd Map.empty"

definition country_to_currency_isos_dict ::
  "str_upper \<Rightarrow> entry list \<Rightarrow> fx_error + (string \<rightharpoonup> string set)" where
  "country_to_currency_isos_dict upper jd =
     for_each
       (\<lambda>entry. and_then (JSON_COUNTRY entry) (\<lambda>country.
                 and_then (JSON_CURRENCY_ISO entry) (\<lambda>code. Inr (upper country, code))))
       dd_add jd Map.empty"

definition currency_iso_to_countries_dict ::
  "entry list \<Rightarrow> fx_error + (string \<rightharpoonup> string set)" where
  "currency_iso_to_countries_dict jd =
     for_each
       (\<lambda>entry. and_then (JSON_CURRENCY_ISO entry) (\<lambda>code.
                 and_then (JSON_COUNTRY entry) (\<lambda>country. Inr (code, country))))
       dd_add jd Map.empty"

definition currency_iso_to_owner_country_dict ::
  "entry list \<Rightarrow> fx_error + (string \<rightharpoonup> string)" where
  "currency_iso_to_owner_country_dict jd =
     for_each
       (\<lambda>entry. and_then (JSON_CURRENCY_ISO entry) (\<lambda>code.
                 and_then (JSON_COUNTRY entry) (\<lambda>country. Inr (code, country))))
       dict_put (filter Owner jd) Map.empty"

definition country_to_primary_currency_iso_dict ::
  "str_upper \<Rightarrow> entry list \<Rightarrow> fx_error + (string \<rightharpoonup> string)" where
  "country_to_primary_currency_iso_dict upper jd =
     for_each
       (\<lambda>entry. and_then (JSON_COUNTRY entry) (\<lambda>country.
                 and_then (JSON_CURRENCY_ISO entry) (\<lambda>code. Inr (upper country, code))))
       dict_put (filter Primary jd) Map.empty"

section \<open>The FxCodes object and its cached properties\<close>

text \<open>
  An \<^verbatim>\<open>FxCodes\<close> object: the parsed contents of its data file, and one slot for each
  \<^verbatim>\<open>cached_property\<close> that the queries use, \<open>None\<close> until the property is first read.
\<close>

record fx_codes =
  data_file_json :: "entry list"
  cache_json_data :: "entry list option"
  cache_currency_to_currency_iso_map :: "(string \<rightharpoonup> string) option"
  cache_currency_iso_to_currency_map :: "(string \<rightharpoonup> string) option"
  cache_country_to_currency_isos_map :: "(string \<rightharpoonup> string set) option"
  cache_currency_iso_to_countries_map :: "(string \<rightharpoonup> string set) option"
  cache_currency_iso_to_owner_country_map :: "(string \<rightharpoonup> string) option"
  cache_country_to_primary_currency_iso_map :: "(string \<rightharpoonup> string) option"

text \<open>\<^verbatim>\<open>FxCodes()\<close> on a data file with the given contents: nothing is computed yet.\<close>

definition FxCodes :: "entry list \<Rightarrow> fx_codes" where
  "FxCodes data =
     \<lparr> data_file_json = data, cache_json_data = None,
       cache_currency_to_currency_iso_map = None, cache_currency_iso_to_currency_map = None,
       cache_country_to_currency_isos_map = None, cache_currency_iso_to_countries_map = None,
       cache_currency_iso_to_owner_country_map = None,
       cache_country_to_primary_currency_iso_map = None \<rparr>"

text \<open>
  An operation on the object returns a value or raises, and leaves the object behind.
\<close>

type_synonym 'a fx = "fx_codes \<Rightarrow> (fx_error + 'a) \<times> fx_codes"

text \<open>One operation after another: an exception of the first ends both.\<close>

definition fx_bind :: "'a fx \<Rightarrow> ('a \<Rightarrow> 'b fx) \<Rightarrow> 'b fx" where
  "fx_bind f g self =
     (case f self of (r, self') \<Rightarrow> (case r of Inl e \<Rightarrow> (Inl e, self') | Inr v \<Rightarrow> g v self'))"

text \<open>
  \<^verbatim>\<open>functools.cached_property\<close>: the first read runs the method and stores its value in
  the object, every later read returns the stored value. A method that raises stores
  nothing.
\<close>

definition cached_property ::
  "(fx_codes \<Rightarrow> 'a option) \<Rightarrow> ('a \<Rightarrow> fx_codes \<Rightarrow> fx_codes) \<Rightarrow> 'a fx \<Rightarrow> 'a fx" where
  "cached_property slot store method self =
     (case slot self of
        Some v \<Rightarrow> (Inr v, self)
      | None \<Rightarrow> fx_bind method (\<lambda>v self'. (Inr v, store v self')) self)"

definition json_data :: "entry list fx" where
  "json_data =
     cached_property cache_json_data (\<lambda>v s. s\<lparr>cache_json_data := Some v\<rparr>)
       (\<lambda>self. (Inr (load_entries (data_file_json self)), self))"

definition currency_to_currency_iso_map :: "str_upper \<Rightarrow> (string \<rightharpoonup> string) fx" where
  "currency_to_currency_iso_map upper =
     cached_property cache_currency_to_currency_iso_map
       (\<lambda>v s. s\<lparr>cache_currency_to_currency_iso_map := Some v\<rparr>)
       (fx_bind json_data (\<lambda>jd self. (currency_to_currency_iso_dict upper jd, self)))"

definition currency_iso_to_currency_map :: "(string \<rightharpoonup> string) fx" where
  "currency_iso_to_currency_map =
     cached_property cache_currency_iso_to_currency_map
       (\<lambda>v s. s\<lparr>cache_currency_iso_to_currency_map := Some v\<rparr>)
       (fx_bind json_data (\<lambda>jd self. (currency_iso_to_currency_dict jd, self)))"

definition country_to_currency_isos_map :: "str_upper \<Rightarrow> (string \<rightharpoonup> string set) fx" where
  "country_to_currency_isos_map upper =
     cached_property cache_country_to_currency_isos_map
       (\<lambda>v s. s\<lparr>cache_country_to_currency_isos_map := Some v\<rparr>)
       (fx_bind json_data (\<lambda>jd self. (country_to_currency_isos_dict upper jd, self)))"

definition currency_iso_to_countries_map :: "(string \<rightharpoonup> string set) fx" where
  "currency_iso_to_countries_map =
     cached_property cache_currency_iso_to_countries_map
       (\<lambda>v s. s\<lparr>cache_currency_iso_to_countries_map := Some v\<rparr>)
       (fx_bind json_data (\<lambda>jd self. (currency_iso_to_countries_dict jd, self)))"

definition currency_iso_to_owner_country_map :: "(string \<rightharpoonup> string) fx" where
  "currency_iso_to_owner_country_map =
     cached_property cache_currency_iso_to_owner_country_map
       (\<lambda>v s. s\<lparr>cache_currency_iso_to_owner_country_map := Some v\<rparr>)
       (fx_bind json_data (\<lambda>jd self. (currency_iso_to_owner_country_dict jd, self)))"

definition country_to_primary_currency_iso_map :: "str_upper \<Rightarrow> (string \<rightharpoonup> string) fx" where
  "country_to_primary_currency_iso_map upper =
     cached_property cache_country_to_primary_currency_iso_map
       (\<lambda>v s. s\<lparr>cache_country_to_primary_currency_iso_map := Some v\<rparr>)
       (fx_bind json_data (\<lambda>jd self. (country_to_primary_currency_iso_dict upper jd, self)))"

section \<open>The queries of class FxCodes\<close>

definition currency_iso_from_currency :: "str_upper \<Rightarrow> string \<Rightarrow> string option fx" where
  "currency_iso_from_currency upper currency =
     fx_bind (currency_to_currency_iso_map upper) (\<lambda>m self. (Inr (m (upper currency)), self))"

definition currency_from_currency_iso :: "str_upper \<Rightarrow> string \<Rightarrow> string option fx" where
  "currency_from_currency_iso upper iso_code =
     fx_bind currency_iso_to_currency_map (\<lambda>m self. (Inr (m (upper iso_code)), self))"

text \<open>
  The set-valued maps are \<^verbatim>\<open>defaultdict\<close>s held in the object; the query reads them with
  \<^verbatim>\<open>.get\<close>, and the map that \<^verbatim>\<open>.get\<close> leaves behind is stored back.
\<close>

definition currency_isos_from_country :: "str_upper \<Rightarrow> string \<Rightarrow> string set fx" where
  "currency_isos_from_country upper country =
     fx_bind (country_to_currency_isos_map upper) (\<lambda>d self.
       case dd_get d (upper country) of (isos, d') \<Rightarrow>
         (Inr (case isos of None \<Rightarrow> {} | Some s \<Rightarrow> s),
          self\<lparr>cache_country_to_currency_isos_map := Some d'\<rparr>))"

definition currency_iso_from_country :: "str_upper \<Rightarrow> string \<Rightarrow> string option fx" where
  "currency_iso_from_country upper country =
     fx_bind (currency_isos_from_country upper country) (\<lambda>currency_isos self.
       let count = card currency_isos in
       if count = 0 then (Inr None, self)
       else if count = 1 then (Inr (Some (the_elem currency_isos)), self)
       else fx_bind (country_to_primary_currency_iso_map upper) (\<lambda>m self.
              case m (upper country) of
                Some primary \<Rightarrow> (Inr (Some primary), self)
              | None \<Rightarrow>
                  (Inl (FxCodesException
                     [Text ''No unique currency ISO for country ISO '', Quoted country,
                      Text '' possibilities: '', SetRepr currency_isos]), self)) self)"

definition countries_from_currency_iso :: "str_upper \<Rightarrow> string \<Rightarrow> string set fx" where
  "countries_from_currency_iso upper currency_iso =
     fx_bind currency_iso_to_countries_map (\<lambda>d self.
       case dd_get d (upper currency_iso) of (countries, d') \<Rightarrow>
         (Inr (case countries of None \<Rightarrow> {} | Some s \<Rightarrow> s),
          self\<lparr>cache_currency_iso_to_countries_map := Some d'\<rparr>))"

text \<open>
  The third test is \<^verbatim>\<open>elif (owner := ...get(...)):\<close>, the truth value of the owner: an
  owner that is the empty string fails it, as a missing one does.
\<close>

definition country_from_currency_iso :: "str_upper \<Rightarrow> string \<Rightarrow> string option fx" where
  "country_from_currency_iso upper currency_iso =
     fx_bind (countries_from_currency_iso upper currency_iso) (\<lambda>countries self.
       let count = card countries in
       if count = 0 then (Inr None, self)
       else if count = 1 then (Inr (Some (the_elem countries)), self)
       else fx_bind currency_iso_to_owner_country_map (\<lambda>m self.
              case m (upper currency_iso) of
                Some owner \<Rightarrow>
                  (if owner \<noteq> [] then (Inr (Some owner), self)
                   else (Inl (FxCodesException
                     [Text ''No unique ownership for ISO '', Quoted currency_iso,
                      Text '' used by: '', SetRepr countries]), self))
              | None \<Rightarrow>
                  (Inl (FxCodesException
                     [Text ''No unique ownership for ISO '', Quoted currency_iso,
                      Text '' used by: '', SetRepr countries]), self)) self)"

section \<open>The command-line layer (currency\_code.py)\<close>

text \<open>
  \<^verbatim>\<open>COUNTRY_CODES\<close> comes from the package \<^verbatim>\<open>country_codes\<close>, which is not part of this
  repository: the operations that the two commands call are parameters. \<open>iso_from_country\<close>
  is only applied to a name that \<open>match_country\<close> returned and gives its code;
  \<open>getitem\<close> is \<^verbatim>\<open>COUNTRY_CODES[code]\<close>, only applied to a member of \<open>codes\<close>.
\<close>

record country_codes =
  country_from_iso :: "string \<Rightarrow> string option"
  match_country :: "string \<Rightarrow> string option"
  iso_from_country :: "string \<Rightarrow> string"
  codes :: "string set"
  getitem :: "string \<Rightarrow> string"

text \<open>What an f-string prints for a value that is a string or \<^verbatim>\<open>None\<close>.\<close>

definition py_str :: "string option \<Rightarrow> string" where
  "py_str v = (case v of None \<Rightarrow> ''None'' | Some s \<Rightarrow> s)"

text \<open>
  A command returns the lines it printed and its return value, or raises the exception
  of \<^verbatim>\<open>FX_CODES\<close> that it lets through; \<^verbatim>\<open>FX_CODES\<close> is the object passed along. The
  argument of \<^verbatim>\<open>print\<close> is computed before anything is printed.
\<close>

definition cli_country_from_currency_iso ::
  "str_upper \<Rightarrow> country_codes \<Rightarrow> string \<Rightarrow> (string list \<times> int) fx" where
  "cli_country_from_currency_iso upper COUNTRY_CODES iso_code =
     fx_bind (country_from_currency_iso upper iso_code) (\<lambda>found FX_CODES.
       case found of
         None \<Rightarrow> (Inr ([''Unknown currency ISO: '' @ iso_code], - 1), FX_CODES)
       | Some country \<Rightarrow>
           (let country' = (if country \<in> codes COUNTRY_CODES
                            then getitem COUNTRY_CODES country else country)
            in fx_bind (currency_from_currency_iso upper iso_code) (\<lambda>name FX_CODES.
                 (Inr ([iso_code @ '': '' @ country' @ '' ('' @ py_str name @ '')''], 0),
                  FX_CODES)) FX_CODES))"

text \<open>The key that \<^verbatim>\<open>currency_iso_from_country\<close> of currency\_code.py looks up.\<close>

definition country_code_of :: "country_codes \<Rightarrow> string \<Rightarrow> string" where
  "country_code_of COUNTRY_CODES country =
     (if country_from_iso COUNTRY_CODES country = None then
        (case match_country COUNTRY_CODES country of
           Some country_match \<Rightarrow> iso_from_country COUNTRY_CODES country_match
         | None \<Rightarrow> country)
      else country)"

definition cli_currency_iso_from_country ::
  "str_upper \<Rightarrow> country_codes \<Rightarrow> string \<Rightarrow> (string list \<times> int) fx" where
  "cli_currency_iso_from_country upper COUNTRY_CODES country =
     fx_bind (currency_iso_from_country upper (country_code_of COUNTRY_CODES country))
       (\<lambda>found FX_CODES.
          case found of
            None \<Rightarrow> (Inr ([''Unknown country or organization: '' @ country], - 1), FX_CODES)
          | Some iso_code \<Rightarrow>
              fx_bind (currency_from_currency_iso upper iso_code) (\<lambda>name FX_CODES.
                (Inr ([country @ '': '' @ iso_code @ '' ('' @ py_str name @ '')''], 0),
                 FX_CODES)) FX_CODES)"

section \<open>The dataset, as the lookups are described\<close>

text \<open>
  These definitions read the records of the data file directly, without the indexes:
  the currency codes of the records of a country, the countries of the records of a code,
  the names of a code, the codes of a name, and the records that carry a flag. Keys are
  compared as the queries compare them.
\<close>

definition isos_of_country :: "str_upper \<Rightarrow> entry list \<Rightarrow> string \<Rightarrow> string set" where
  "isos_of_country upper data k =
     set (List.map_filter
            (\<lambda>e. if map_option upper (Entity e) = Some (upper k) then AlphabeticCode e else None)
            data)"

definition primary_records :: "str_upper \<Rightarrow> entry list \<Rightarrow> string \<Rightarrow> entry list" where
  "primary_records upper data k =
     filter (\<lambda>e. AlphabeticCode e \<noteq> None \<and> Primary e \<and>
                 map_option upper (Entity e) = Some (upper k)) data"

definition countries_of_iso :: "str_upper \<Rightarrow> entry list \<Rightarrow> string \<Rightarrow> string set" where
  "countries_of_iso upper data c =
     set (List.map_filter (\<lambda>e. if AlphabeticCode e = Some (upper c) then Entity e else None)
            data)"

definition owner_records :: "str_upper \<Rightarrow> entry list \<Rightarrow> string \<Rightarrow> entry list" where
  "owner_records upper data c =
     filter (\<lambda>e. AlphabeticCode e = Some (upper c) \<and> Owner e) data"

definition names_of_iso :: "str_upper \<Rightarrow> entry list \<Rightarrow> string \<Rightarrow> string list" where
  "names_of_iso upper data c =
     List.map_filter (\<lambda>e. if AlphabeticCode e = Some (upper c) then Currency e else None) data"

definition isos_of_name :: "str_upper \<Rightarrow> entry list \<Rightarrow> string \<Rightarrow> string list" where
  "isos_of_name upper data n =
     List.map_filter
       (\<lambda>e. if map_option upper (Currency e) = Some (upper n) then AlphabeticCode e else None)
       data"

text \<open>Every record with a code has the key \<^verbatim>\<open>Entity\<close>, or the key \<^verbatim>\<open>Currency\<close>.\<close>

definition has_entities :: "entry list \<Rightarrow> bool" where
  "has_entities data = (\<forall>e \<in> set data. AlphabeticCode e = None \<or> Entity e \<noteq> None)"

definition has_currencies :: "entry list \<Rightarrow> bool" where
  "has_currencies data = (\<forall>e \<in> set data. AlphabeticCode e = None \<or> Currency e \<noteq> None)"

text \<open>
  An object is well formed when every slot that is filled holds the value that its
  property computes from the data file: the states that \<^verbatim>\<open>FxCodes()\<close> and the queries
  produce.
\<close>

definition cached_ok :: "'a option \<Rightarrow> fx_error + 'a \<Rightarrow> bool" where
  "cached_ok slot r = (case slot of None \<Rightarrow> True | Some v \<Rightarrow> r = Inr v)"

definition wf_fx :: "str_upper \<Rightarrow> fx_codes \<Rightarrow> bool" where
  "wf_fx upper self =
     (let jd = load_entries (data_file_json self) in
      cached_ok (cache_json_data self) (Inr jd) \<and>
      cached_ok (cache_currency_to_currency_iso_map self)
        (currency_to_currency_iso_dict upper jd) \<and>
      cached_ok (cache_currency_iso_to_currency_map self) (currency_iso_to_currency_dict jd) \<and>
      cached_ok (cache_country_to_currency_isos_map self)
        (country_to_currency_isos_dict upper jd) \<and>
      cached_ok (cache_currency_iso_to_countries_map self) (currency_iso_to_countries_dict jd) \<and>
      cached_ok (cache_currency_iso_to_owner_country_map self)
        (currency_iso_to_owner_country_dict jd) \<and>
      cached_ok (cache_country_to_primary_currency_iso_map self)
        (country_to_primary_currency_iso_dict upper jd))"

text \<open>
  \<open>kept self self'\<close>: the data file is the same and every slot filled in \<open>self\<close> holds
  the same value in \<open>self'\<close>.
\<close>

definition kept_slot :: "'a option \<Rightarrow> 'a option \<Rightarrow> bool" where
  "kept_slot old new = (old = None \<or> new = old)"

definition kept :: "fx_codes \<Rightarrow> fx_codes \<Rightarrow> bool" where
  "kept self self' =
     (data_file_json self' = data_file_json self \<and>
      kept_slot (cache_json_data self) (cache_json_data self') \<and>
      kept_slot (cache_currency_to_currency_iso_map self)
        (cache_currency_to_currency_iso_map self') \<and>
      kept_slot (cache_currency_iso_to_currency_map self)
        (cache_currency_iso_to_currency_map self') \<and>
      kept_slot (cache_country_to_currency_isos_map self)
        (cache_country_to_currency_isos_map self') \<and>
      kept_slot (cache_currency_iso_to_countries_map self)
        (cache_currency_iso_to_countries_map self') \<and>
      kept_slot (cache_currency_iso_to_owner_country_map self)
        (cache_currency_iso_to_owner_country_map self') \<and>
      kept_slot (cache_country_to_primary_currency_iso_map self)
        (cache_country_to_primary_currency_iso_map self'))"

text \<open>
  \<open>returns upper f self r\<close>: on \<open>self\<close> the operation \<open>f\<close> has the outcome \<open>r\<close>, a value or
  an exception, and leaves a well-formed object in which nothing that was stored has
  changed.
\<close>

definition returns :: "str_upper \<Rightarrow> 'a fx \<Rightarrow> fx_codes \<Rightarrow> fx_error + 'a \<Rightarrow> bool" where
  "returns upper f self r =
     (fst (f self) = r \<and> wf_fx upper (snd (f self)) \<and> kept self (snd (f self)))"

text \<open>
  \<open>stable upper f self\<close>: \<open>f\<close> leaves a well-formed object in which nothing that was
  stored has changed, and calling \<open>f\<close> again on that object has the outcome of the first
  call.
\<close>

definition stable :: "str_upper \<Rightarrow> 'a fx \<Rightarrow> fx_codes \<Rightarrow> bool" where
  "stable upper f self =
     (wf_fx upper (snd (f self)) \<and> kept self (snd (f self)) \<and>
      fst (f (snd (f self))) = fst (f self))"

text \<open>
  What the two disambiguating queries give on a data file whose records with a code all
  have an \<^verbatim>\<open>Entity\<close>, read off the records.
\<close>

definition currency_iso_outcome ::
  "str_upper \<Rightarrow> entry list \<Rightarrow> string \<Rightarrow> fx_error + string option" where
  "currency_iso_outcome upper data country =
     (let S = isos_of_country upper data country; ps = primary_records upper data country in
      if S = {} then Inr None
      else if card S = 1 then Inr (Some (the_elem S))
      else if ps \<noteq> [] then Inr (AlphabeticCode (last ps))
      else Inl (FxCodesException
             [Text ''No unique currency ISO for country ISO '', Quoted country,
              Text '' possibilities: '', SetRepr S]))"

definition country_outcome ::
  "str_upper \<Rightarrow> entry list \<Rightarrow> string \<Rightarrow> fx_error + string option" where
  "country_outcome upper data currency_iso =
     (let S = countries_of_iso upper data currency_iso;
          os = owner_records upper data currency_iso in
      if S = {} then Inr None
      else if card S = 1 then Inr (Some (the_elem S))
      else if os \<noteq> [] \<and> Entity (last os) \<noteq> Some [] then Inr (Entity (last os))
      else Inl (FxCodesException
             [Text ''No unique ownership for ISO '', Quoted currency_iso,
              Text '' used by: '', SetRepr S]))"

text \<open>The class of an exception.\<close>

fun exception_class :: "fx_error \<Rightarrow> string" where
  "exception_class (FxCodesException message) = ''FxCodesException''"
| "exception_class (KeyError key) = ''KeyError''"

text \<open>What a call returns: \<open>None\<close> when it raises.\<close>

definition returned :: "fx_error + 'a \<Rightarrow> 'a option" where
  "returned r = (case r of Inl e \<Rightarrow> None | Inr v \<Rightarrow> Some v)"

text \<open>The dictionary that a loop builds when no entry raises.\<close>

definition dict_of :: "('k \<times> 'v) list \<Rightarrow> ('k \<rightharpoonup> 'v)" where
  "dict_of kvs = fold dict_put kvs Map.empty"

definition setdict_of :: "('k \<times> 'v) list \<Rightarrow> ('k \<rightharpoonup> 'v set)" where
  "setdict_of kvs = fold dd_add kvs Map.empty"

subsection \<open>Upper and lower case in the examples\<close>

text \<open>\<^verbatim>\<open>str.upper()\<close> and \<^verbatim>\<open>str.lower()\<close> on strings of ASCII characters.\<close>

definition ascii_upper_char :: "char \<Rightarrow> char" where
  "ascii_upper_char c =
     (case map_of (zip ''abcdefghijklmnopqrstuvwxyz'' ''ABCDEFGHIJKLMNOPQRSTUVWXYZ'') c of
        Some C \<Rightarrow> C
      | None \<Rightarrow> c)"

definition ascii_lower_char :: "char \<Rightarrow> char" where
  "ascii_lower_char c =
     (case map_of (zip ''ABCDEFGHIJKLMNOPQRSTUVWXYZ'' ''abcdefghijklmnopqrstuvwxyz'') c of
        Some C \<Rightarrow> C
      | None \<Rightarrow> c)"

definition ascii_upper :: str_upper where
  "ascii_upper s = map ascii_upper_char s"

text \<open>
  The letter sharp s, U+00DF, and its capital form, U+1E9E, in UTF-8.
\<close>

definition sharp_s :: string where
  "sharp_s = [CHR 0xC3, CHR 0x9F]"

definition capital_sharp_s :: string where
  "capital_sharp_s = [CHR 0xE1, CHR 0xBA, CHR 0x9E]"

text \<open>
  \<^verbatim>\<open>str.upper()\<close> and \<^verbatim>\<open>str.lower()\<close> on strings of ASCII characters and the two forms
  of sharp s. In Python the upper case of U+00DF is the two letters SS and U+1E9E is its
  own upper case; the lower case of U+1E9E is U+00DF.
\<close>

fun german_upper :: str_upper where
  "german_upper (a # b # cs) =
     (if [a, b] = sharp_s then ''SS'' @ german_upper cs
      else ascii_upper_char a # german_upper (b # cs))"
| "german_upper [a] = [ascii_upper_char a]"
| "german_upper [] = []"

fun german_lower :: "string \<Rightarrow> string" where
  "german_lower (a # b # c # cs) =
     (if [a, b, c] = capital_sharp_s then sharp_s @ german_lower cs
      else ascii_lower_char a # german_lower (b # c # cs))"
| "german_lower [a, b] = [ascii_lower_char a, ascii_lower_char b]"
| "german_lower [a] = [ascii_lower_char a]"
| "german_lower [] = []"

text \<open>\<open>mentions phrase line\<close>: the line contains the phrase, letter case aside.\<close>

definition mentions :: "string \<Rightarrow> string \<Rightarrow> bool" where
  "mentions phrase line = sublist (ascii_upper phrase) (ascii_upper line)"

subsection \<open>Example data\<close>

text \<open>A record that has all its keys.\<close>

definition rec :: "string \<Rightarrow> string \<Rightarrow> string option \<Rightarrow> bool \<Rightarrow> bool \<Rightarrow> entry" where
  "rec country name code own prim =
     \<lparr> Entity = Some country, Currency = Some name, AlphabeticCode = code, Owner = own,
       Primary = prim \<rparr>"

text \<open>
  The US dollar has an owner; the euro is shared with no owner; CU has two currencies and
  no primary one; CH has two with a primary one; AQ has no currency code.
\<close>

definition example_data :: "entry list" where
  "example_data =
     [rec ''US'' ''US Dollar'' (Some ''USD'') True False,
      rec ''EC'' ''US Dollar'' (Some ''USD'') False False,
      rec ''FR'' ''Euro'' (Some ''EUR'') False False,
      rec ''DE'' ''Euro'' (Some ''EUR'') False False,
      rec ''CU'' ''Cuban Peso'' (Some ''CUP'') False False,
      rec ''CU'' ''Peso Convertible'' (Some ''CUC'') False False,
      rec ''CH'' ''Swiss Franc'' (Some ''CHF'') False True,
      rec ''CH'' ''WIR Euro'' (Some ''CHE'') False False,
      rec ''AQ'' ''No universal currency'' None False False]"

text \<open>A country-code reference that knows US and CH, by code and by name.\<close>

definition example_country_codes :: country_codes where
  "example_country_codes =
     \<lparr> country_from_iso =
         (\<lambda>c. if ascii_upper c = ''US'' then Some ''United States''
               else if ascii_upper c = ''CH'' then Some ''Switzerland'' else None),
       match_country =
         (\<lambda>n. if ascii_upper n = ''UNITED STATES'' then Some ''United States''
               else if ascii_upper n = ''SWITZERLAND'' then Some ''Switzerland'' else None),
       iso_from_country = (\<lambda>n. if n = ''United States'' then ''US'' else ''CH''),
       codes = {''US'', ''CH''},
       getitem = (\<lambda>c. if c = ''US'' then ''United States'' else ''Switzerland'') \<rparr>"

text \<open>Two countries share the euro; the record flagged as owner has an empty country name.\<close>

definition owner_bug_data :: "entry list" where
  "owner_bug_data =
     [rec [] ''Euro'' (Some ''EUR'') True False,
      rec ''FR'' ''Euro'' (Some ''EUR'') False False]"

text \<open>Two codes with one currency name, and a code that is not in upper case.\<close>

definition shared_name_data :: "entry list" where
  "shared_name_data =
     [rec ''AA'' ''Dollar'' (Some ''AAA'') False False,
      rec ''BB'' ''Dollar'' (Some ''BBB'') False False]"

definition lower_code_data :: "entry list" where
  "lower_code_data = [rec ''US'' ''US Dollar'' (Some ''usd'') False False]"

text \<open>A record with a code and no \<^verbatim>\<open>Currency\<close>, and one with a code and no \<^verbatim>\<open>Entity\<close>.\<close>

definition no_currency_data :: "entry list" where
  "no_currency_data =
     [\<lparr> Entity = Some ''US'', Currency = None, AlphabeticCode = Some ''USD'', Owner = False,
        Primary = False \<rparr>]"

definition no_entity_data :: "entry list" where
  "no_entity_data =
     [\<lparr> Entity = None, Currency = Some ''US Dollar'', AlphabeticCode = Some ''USD'',
        Owner = False, Primary = False \<rparr>]"

text \<open>
  A country whose name is written with a sharp s, and a code that is the upper case of
  a string with a sharp s.
\<close>

definition sharp_s_data :: "entry list" where
  "sharp_s_data =
     [rec (''Wei'' @ sharp_s @ ''russland'') ''Belarusian Ruble'' (Some ''BYN'') False False,
      rec ''XX'' ''Test Unit'' (Some ''SSS'') False False]"

section \<open>Lemmas\<close>

subsection \<open>Loops\<close>

lemma and_then_Inr [simp]: "and_then (Inr v) f = f v"
  by (simp add: and_then_def)

lemma and_then_Inl [simp]: "and_then (Inl e) f = Inl e"
  by (simp add: and_then_def)

lemma for_each_ok:
  "(\<forall>x \<in> set xs. item x = Inr (g x)) \<Longrightarrow>
     for_each item step xs m = Inr (fold step (map g xs) m)"
  by (induction xs arbitrary: m) simp_all

lemma for_each_fail:
  "(\<forall>x \<in> set xs. item x = Inl err \<or> (\<exists>kv. item x = Inr kv)) \<Longrightarrow>
   (\<exists>x \<in> set xs. item x = Inl err) \<Longrightarrow> for_each item step xs m = Inl err"
proof (induction xs arbitrary: m)
  case Nil
  then show ?case by simp
next
  case (Cons x xs)
  show ?case
  proof (cases "item x")
    case (Inl e)
    with Cons.prems(1) show ?thesis by auto
  next
    case (Inr kv)
    with Cons.prems have "\<exists>y \<in> set xs. item y = Inl err"
      by auto
    with Cons.prems(1) have "for_each item step xs (step kv m) = Inl err"
      by (intro Cons.IH) auto
    with Inr show ?thesis by simp
  qed
qed

lemma dict_of_snoc: "dict_of (kvs @ [(k, v)]) = (dict_of kvs)(k \<mapsto> v)"
  by (simp add: dict_of_def dict_put_def)

lemma dict_of_Nil: "dict_of [] = Map.empty"
  by (simp add: dict_of_def)

lemma dict_of_map:
  "dict_of (map (\<lambda>e. (f e, g e)) xs) k =
     (if filter (\<lambda>e. f e = k) xs = [] then None
      else Some (g (last (filter (\<lambda>e. f e = k) xs))))"
proof (induction xs rule: rev_induct)
  case Nil
  show ?case by (simp add: dict_of_Nil)
next
  case (snoc x xs)
  show ?case
  proof (cases "f x = k")
    case True
    then show ?thesis
      by (simp add: dict_of_snoc)
  next
    case False
    then show ?thesis
      using snoc by (simp add: dict_of_snoc)
  qed
qed

lemma setdict_of_snoc:
  "setdict_of (kvs @ [(k, v)]) =
     (setdict_of kvs)(k \<mapsto> insert v (case setdict_of kvs k of None \<Rightarrow> {} | Some s \<Rightarrow> s))"
  by (simp add: setdict_of_def dd_add_def dd_getitem_def split: option.splits)

lemma setdict_of_Nil: "setdict_of [] = Map.empty"
  by (simp add: setdict_of_def)

lemma setdict_of_map:
  "setdict_of (map (\<lambda>e. (f e, g e)) xs) k =
     (if \<exists>e \<in> set xs. f e = k then Some (g ` {e \<in> set xs. f e = k}) else None)"
proof (induction xs rule: rev_induct)
  case Nil
  show ?case by (simp add: setdict_of_Nil)
next
  case (snoc x xs)
  show ?case
  proof (cases "f x = k")
    case True
    then show ?thesis
      using snoc by (auto simp add: setdict_of_snoc)
  next
    case False
    then show ?thesis
      using snoc by (auto simp add: setdict_of_snoc)
  qed
qed

subsection \<open>Well-formed objects and cached properties\<close>

lemma returnsI:
  "f self = (r, self') \<Longrightarrow> wf_fx upper self' \<Longrightarrow> kept self self' \<Longrightarrow> returns upper f self r"
  by (simp add: returns_def)

lemma returnsE:
  assumes "returns upper f self r"
  obtains self' where "f self = (r, self')" and "wf_fx upper self'" and "kept self self'"
  using assms by (cases "f self") (simp add: returns_def)

lemma returns_fst: "returns upper f self r \<Longrightarrow> fst (f self) = r"
  by (simp add: returns_def)

lemma run_wf: "returns upper f self r \<Longrightarrow> wf_fx upper (snd (f self))"
  by (simp add: returns_def)

lemma run_kept: "returns upper f self r \<Longrightarrow> kept self (snd (f self))"
  by (simp add: returns_def)

lemma run_data: "returns upper f self r \<Longrightarrow> data_file_json (snd (f self)) = data_file_json self"
  by (simp add: returns_def kept_def)

lemma kept_refl: "kept self self"
  by (simp add: kept_def kept_slot_def)

lemma kept_slot_trans: "kept_slot a b \<Longrightarrow> kept_slot b c \<Longrightarrow> kept_slot a c"
  by (auto simp add: kept_slot_def)

lemma kept_trans: "kept a b \<Longrightarrow> kept b c \<Longrightarrow> kept a c"
  unfolding kept_def by (auto intro: kept_slot_trans)

lemma kept_data: "kept a b \<Longrightarrow> data_file_json b = data_file_json a"
  by (simp add: kept_def)

lemma wf_FxCodes: "wf_fx upper (FxCodes data)"
  by (simp add: wf_fx_def FxCodes_def cached_ok_def)

lemma data_FxCodes: "data_file_json (FxCodes data) = data"
  by (simp add: FxCodes_def)

lemma returns_pure: "wf_fx upper self \<Longrightarrow> returns upper (\<lambda>self. (r, self)) self r"
  by (simp add: returns_def kept_refl)

lemma returns_read: "wf_fx upper self \<Longrightarrow> returns upper (\<lambda>s. (h s, s)) self (h self)"
  by (simp add: returns_def kept_refl)

lemma returns_bind:
  assumes f: "returns upper f self r"
    and g: "\<And>v s. r = Inr v \<Longrightarrow> wf_fx upper s \<Longrightarrow> kept self s \<Longrightarrow>
              returns upper (g v) s (h v)"
  shows "returns upper (fx_bind f g) self (and_then r h)"
proof -
  from f obtain s1 where fs: "f self = (r, s1)" and wf1: "wf_fx upper s1" and k1: "kept self s1"
    by (rule returnsE)
  show ?thesis
  proof (cases r)
    case (Inl e)
    then have "fx_bind f g self = (and_then r h, s1)"
      using fs by (simp add: fx_bind_def)
    then show ?thesis
      using wf1 k1 by (rule returnsI)
  next
    case (Inr v)
    from g [OF Inr wf1 k1] obtain s2
      where gs: "g v s1 = (h v, s2)" and wf2: "wf_fx upper s2" and k2: "kept s1 s2"
      by (rule returnsE)
    have "fx_bind f g self = (and_then r h, s2)"
      using fs gs Inr by (simp add: fx_bind_def)
    moreover have "kept self s2"
      using k1 k2 by (rule kept_trans)
    ultimately show ?thesis
      using wf2 by (intro returnsI)
  qed
qed

lemma and_then_return: "and_then r Inr = r"
  by (cases r) simp_all

lemma returns_cached_property:
  assumes m: "returns upper method self r"
    and filled: "\<And>v. slot self = Some v \<Longrightarrow> r = Inr v"
    and store_wf: "\<And>v s. r = Inr v \<Longrightarrow> wf_fx upper s \<Longrightarrow> kept self s \<Longrightarrow>
                     wf_fx upper (store v s)"
    and store_kept: "\<And>v s. slot self = None \<Longrightarrow> kept self s \<Longrightarrow> kept self (store v s)"
    and wf: "wf_fx upper self"
  shows "returns upper (cached_property slot store method) self r"
proof (cases "slot self")
  case None
  from m obtain s1
    where ms: "method self = (r, s1)" and wf1: "wf_fx upper s1" and k1: "kept self s1"
    by (rule returnsE)
  show ?thesis
  proof (cases r)
    case (Inl e)
    then have "cached_property slot store method self = (r, s1)"
      using None ms by (simp add: cached_property_def fx_bind_def)
    then show ?thesis
      using wf1 k1 by (rule returnsI)
  next
    case (Inr v)
    then have "cached_property slot store method self = (r, store v s1)"
      using None ms by (simp add: cached_property_def fx_bind_def)
    moreover have "wf_fx upper (store v s1)"
      using Inr wf1 k1 by (rule store_wf)
    moreover have "kept self (store v s1)"
      using None k1 by (rule store_kept)
    ultimately show ?thesis
      by (rule returnsI)
  qed
next
  case (Some v)
  then have "cached_property slot store method self = (Inr v, self)"
    by (simp add: cached_property_def)
  moreover have "r = Inr v"
    using Some by (rule filled)
  ultimately show ?thesis
    using wf kept_refl by (simp add: returns_def)
qed

lemma wf_store_json_data:
  "wf_fx upper s \<Longrightarrow>
     wf_fx upper (s\<lparr>cache_json_data := Some (load_entries (data_file_json s))\<rparr>)"
  by (simp add: wf_fx_def Let_def cached_ok_def)

lemma wf_slot_json_data:
  "wf_fx upper s \<Longrightarrow> cache_json_data s = Some v \<Longrightarrow>
     Inr (load_entries (data_file_json s)) = Inr v"
  by (simp add: wf_fx_def Let_def cached_ok_def)

lemma kept_store_json_data:
  "cache_json_data a = None \<Longrightarrow> kept a b \<Longrightarrow>
     kept a (b\<lparr>cache_json_data := v\<rparr>)"
  by (simp add: kept_def kept_slot_def)

lemma wf_store_currency_to_currency_iso_map:
  "wf_fx upper s \<Longrightarrow> currency_to_currency_iso_dict upper (load_entries (data_file_json s)) = Inr v \<Longrightarrow>
     wf_fx upper (s\<lparr>cache_currency_to_currency_iso_map := Some v\<rparr>)"
  by (simp add: wf_fx_def Let_def cached_ok_def)

lemma wf_slot_currency_to_currency_iso_map:
  "wf_fx upper s \<Longrightarrow> cache_currency_to_currency_iso_map s = Some v \<Longrightarrow>
     currency_to_currency_iso_dict upper (load_entries (data_file_json s)) = Inr v"
  by (simp add: wf_fx_def Let_def cached_ok_def)

lemma kept_store_currency_to_currency_iso_map:
  "cache_currency_to_currency_iso_map a = None \<Longrightarrow> kept a b \<Longrightarrow>
     kept a (b\<lparr>cache_currency_to_currency_iso_map := v\<rparr>)"
  by (simp add: kept_def kept_slot_def)

lemma wf_store_currency_iso_to_currency_map:
  "wf_fx upper s \<Longrightarrow> currency_iso_to_currency_dict (load_entries (data_file_json s)) = Inr v \<Longrightarrow>
     wf_fx upper (s\<lparr>cache_currency_iso_to_currency_map := Some v\<rparr>)"
  by (simp add: wf_fx_def Let_def cached_ok_def)

lemma wf_slot_currency_iso_to_currency_map:
  "wf_fx upper s \<Longrightarrow> cache_currency_iso_to_currency_map s = Some v \<Longrightarrow>
     currency_iso_to_currency_dict (load_entries (data_file_json s)) = Inr v"
  by (simp add: wf_fx_def Let_def cached_ok_def)

lemma kept_store_currency_iso_to_currency_map:
  "cache_currency_iso_to_currency_map a = None \<Longrightarrow> kept a b \<Longrightarrow>
     kept a (b\<lparr>cache_currency_iso_to_currency_map := v\<rparr>)"
  by (simp add: kept_def kept_slot_def)

lemma wf_store_country_to_currency_isos_map:
  "wf_fx upper s \<Longrightarrow> country_to_currency_isos_dict upper (load_entries (data_file_json s)) = Inr v \<Longrightarrow>
     wf_fx upper (s\<lparr>cache_country_to_currency_isos_map := Some v\<rparr>)"
  by (simp add: wf_fx_def Let_def cached_ok_def)

lemma wf_slot_country_to_currency_isos_map:
  "wf_fx upper s \<Longrightarrow> cache_country_to_currency_isos_map s = Some v \<Longrightarrow>
     country_to_currency_isos_dict upper (load_entries (data_file_json s)) = Inr v"
  by (simp add: wf_fx_def Let_def cached_ok_def)

lemma kept_store_country_to_currency_isos_map:
  "cache_country_to_currency_isos_map a = None \<Longrightarrow> kept a b \<Longrightarrow>
     kept a (b\<lparr>cache_country_to_currency_isos_map := v\<rparr>)"
  by (simp add: kept_def kept_slot_def)

lemma wf_store_currency_iso_to_countries_map:
  "wf_fx upper s \<Longrightarrow> currency_iso_to_countries_dict (load_entries (data_file_json s)) = Inr v \<Longrightarrow>
     wf_fx upper (s\<lparr>cache_currency_iso_to_countries_map := Some v\<rparr>)"
  by (simp add: wf_fx_def Let_def cached_ok_def)

lemma wf_slot_currency_iso_to_countries_map:
  "wf_fx upper s \<Longrightarrow> cache_currency_iso_to_countries_map s = Some v \<Longrightarrow>
     currency_iso_to_countries_dict (load_entries (data_file_json s)) = Inr v"
  by (simp add: wf_fx_def Let_def cached_ok_def)

lemma kept_store_currency_iso_to_countries_map:
  "cache_currency_iso_to_countries_map a = None \<Longrightarrow> kept a b \<Longrightarrow>
     kept a (b\<lparr>cache_currency_iso_to_countries_map := v\<rparr>)"
  by (simp add: kept_def kept_slot_def)

lemma wf_store_currency_iso_to_owner_country_map:
  "wf_fx upper s \<Longrightarrow> currency_iso_to_owner_country_dict (load_entries (data_file_json s)) = Inr v \<Longrightarrow>
     wf_fx upper (s\<lparr>cache_currency_iso_to_owner_country_map := Some v\<rparr>)"
  by (simp add: wf_fx_def Let_def cached_ok_def)

lemma wf_slot_currency_iso_to_owner_country_map:
  "wf_fx upper s \<Longrightarrow> cache_currency_iso_to_owner_country_map s = Some v \<Longrightarrow>
     currency_iso_to_owner_country_dict (load_entries (data_file_json s)) = Inr v"
  by (simp add: wf_fx_def Let_def cached_ok_def)

lemma kept_store_currency_iso_to_owner_country_map:
  "cache_currency_iso_to_owner_country_map a = None \<Longrightarrow> kept a b \<Longrightarrow>
     kept a (b\<lparr>cache_currency_iso_to_owner_country_map := v\<rparr>)"
  by (simp add: kept_def kept_slot_def)

lemma wf_store_country_to_primary_currency_iso_map:
  "wf_fx upper s \<Longrightarrow> country_to_primary_currency_iso_dict upper (load_entries (data_file_json s)) = Inr v \<Longrightarrow>
     wf_fx upper (s\<lparr>cache_country_to_primary_currency_iso_map := Some v\<rparr>)"
  by (simp add: wf_fx_def Let_def cached_ok_def)

lemma wf_slot_country_to_primary_currency_iso_map:
  "wf_fx upper s \<Longrightarrow> cache_country_to_primary_currency_iso_map s = Some v \<Longrightarrow>
     country_to_primary_currency_iso_dict upper (load_entries (data_file_json s)) = Inr v"
  by (simp add: wf_fx_def Let_def cached_ok_def)

lemma kept_store_country_to_primary_currency_iso_map:
  "cache_country_to_primary_currency_iso_map a = None \<Longrightarrow> kept a b \<Longrightarrow>
     kept a (b\<lparr>cache_country_to_primary_currency_iso_map := v\<rparr>)"
  by (simp add: kept_def kept_slot_def)

lemma run_json_data:
  assumes "wf_fx upper self"
  shows "returns upper json_data self (Inr (load_entries (data_file_json self)))"
  unfolding json_data_def
proof (rule returns_cached_property [OF _ _ _ _ assms])
  show "returns upper (\<lambda>self. (Inr (load_entries (data_file_json self)), self)) self
          (Inr (load_entries (data_file_json self)))"
    using assms by (rule returns_read)
  show "Inr (load_entries (data_file_json self)) = Inr v" if "cache_json_data self = Some v" for v
    using wf_slot_json_data [OF assms that] by simp
  show "wf_fx upper (s\<lparr>cache_json_data := Some v\<rparr>)"
    if "Inr (load_entries (data_file_json self)) = Inr v" and "wf_fx upper s" and "kept self s"
    for v s
    using wf_store_json_data [OF that(2)] that(1) kept_data [OF that(3)] by simp
  show "kept self (s\<lparr>cache_json_data := Some v\<rparr>)"
    if "cache_json_data self = None" and "kept self s" for v s
    using that by (rule kept_store_json_data)
qed

lemma run_currency_to_currency_iso_map:
  assumes "wf_fx upper self"
  shows "returns upper (currency_to_currency_iso_map upper) self
           (currency_to_currency_iso_dict upper (load_entries (data_file_json self)))"
  unfolding currency_to_currency_iso_map_def
proof (rule returns_cached_property [OF _ _ _ _ assms])
  let ?jd = "load_entries (data_file_json self)"
  have "returns upper (fx_bind json_data (\<lambda>jd self. (currency_to_currency_iso_dict upper jd, self))) self
          (and_then (Inr ?jd) (\<lambda>jd. currency_to_currency_iso_dict upper jd))"
    using run_json_data [OF assms] by (rule returns_bind) (simp add: returns_pure)
  then show "returns upper (fx_bind json_data (\<lambda>jd self. (currency_to_currency_iso_dict upper jd, self))) self
          (currency_to_currency_iso_dict upper ?jd)"
    by simp
  show "currency_to_currency_iso_dict upper ?jd = Inr v" if "cache_currency_to_currency_iso_map self = Some v" for v
    using assms that by (rule wf_slot_currency_to_currency_iso_map)
  show "wf_fx upper (s\<lparr>cache_currency_to_currency_iso_map := Some v\<rparr>)"
    if "currency_to_currency_iso_dict upper ?jd = Inr v" and "wf_fx upper s" and "kept self s" for v s
    using wf_store_currency_to_currency_iso_map [OF that(2), of v] that(1) kept_data [OF that(3)] by simp
  show "kept self (s\<lparr>cache_currency_to_currency_iso_map := Some v\<rparr>)"
    if "cache_currency_to_currency_iso_map self = None" and "kept self s" for v s
    using that by (rule kept_store_currency_to_currency_iso_map)
qed

lemma run_currency_iso_to_currency_map:
  assumes "wf_fx upper self"
  shows "returns upper (currency_iso_to_currency_map) self
           (currency_iso_to_currency_dict (load_entries (data_file_json self)))"
  unfolding currency_iso_to_currency_map_def
proof (rule returns_cached_property [OF _ _ _ _ assms])
  let ?jd = "load_entries (data_file_json self)"
  have "returns upper (fx_bind json_data (\<lambda>jd self. (currency_iso_to_currency_dict jd, self))) self
          (and_then (Inr ?jd) (\<lambda>jd. currency_iso_to_currency_dict jd))"
    using run_json_data [OF assms] by (rule returns_bind) (simp add: returns_pure)
  then show "returns upper (fx_bind json_data (\<lambda>jd self. (currency_iso_to_currency_dict jd, self))) self
          (currency_iso_to_currency_dict ?jd)"
    by simp
  show "currency_iso_to_currency_dict ?jd = Inr v" if "cache_currency_iso_to_currency_map self = Some v" for v
    using assms that by (rule wf_slot_currency_iso_to_currency_map)
  show "wf_fx upper (s\<lparr>cache_currency_iso_to_currency_map := Some v\<rparr>)"
    if "currency_iso_to_currency_dict ?jd = Inr v" and "wf_fx upper s" and "kept self s" for v s
    using wf_store_currency_iso_to_currency_map [OF that(2), of v] that(1) kept_data [OF that(3)] by simp
  show "kept self (s\<lparr>cache_currency_iso_to_currency_map := Some v\<rparr>)"
    if "cache_currency_iso_to_currency_map self = None" and "kept self s" for v s
    using that by (rule kept_store_currency_iso_to_currency_map)
qed

lemma run_country_to_currency_isos_map:
  assumes "wf_fx upper self"
  shows "returns upper (country_to_currency_isos_map upper) self
           (country_to_currency_isos_dict upper (load_entries (data_file_json self)))"
  unfolding country_to_currency_isos_map_def
proof (rule returns_cached_property [OF _ _ _ _ assms])
  let ?jd = "load_entries (data_file_json self)"
  have "returns upper (fx_bind json_data (\<lambda>jd self. (country_to_currency_isos_dict upper jd, self))) self
          (and_then (Inr ?jd) (\<lambda>jd. country_to_currency_isos_dict upper jd))"
    using run_json_data [OF assms] by (rule returns_bind) (simp add: returns_pure)
  then show "returns upper (fx_bind json_data (\<lambda>jd self. (country_to_currency_isos_dict upper jd, self))) self
          (country_to_currency_isos_dict upper ?jd)"
    by simp
  show "country_to_currency_isos_dict upper ?jd = Inr v" if "cache_country_to_currency_isos_map self = Some v" for v
    using assms that by (rule wf_slot_country_to_currency_isos_map)
  show "wf_fx upper (s\<lparr>cache_country_to_currency_isos_map := Some v\<rparr>)"
    if "country_to_currency_isos_dict upper ?jd = Inr v" and "wf_fx upper s" and "kept self s" for v s
    using wf_store_country_to_currency_isos_map [OF that(2), of v] that(1) kept_data [OF that(3)] by simp
  show "kept self (s\<lparr>cache_country_to_currency_isos_map := Some v\<rparr>)"
    if "cache_country_to_currency_isos_map self = None" and "kept self s" for v s
    using that by (rule kept_store_country_to_currency_isos_map)
qed

lemma run_currency_iso_to_countries_map:
  assumes "wf_fx upper self"
  shows "returns upper (currency_iso_to_countries_map) self
           (currency_iso_to_countries_dict (load_entries (data_file_json self)))"
  unfolding currency_iso_to_countries_map_def
proof (rule returns_cached_property [OF _ _ _ _ assms])
  let ?jd = "load_entries (data_file_json self)"
  have "returns upper (fx_bind json_data (\<lambda>jd self. (currency_iso_to_countries_dict jd, self))) self
          (and_then (Inr ?jd) (\<lambda>jd. currency_iso_to_countries_dict jd))"
    using run_json_data [OF assms] by (rule returns_bind) (simp add: returns_pure)
  then show "returns upper (fx_bind json_data (\<lambda>jd self. (currency_iso_to_countries_dict jd, self))) self
          (currency_iso_to_countries_dict ?jd)"
    by simp
  show "currency_iso_to_countries_dict ?jd = Inr v" if "cache_currency_iso_to_countries_map self = Some v" for v
    using assms that by (rule wf_slot_currency_iso_to_countries_map)
  show "wf_fx upper (s\<lparr>cache_currency_iso_to_countries_map := Some v\<rparr>)"
    if "currency_iso_to_countries_dict ?jd = Inr v" and "wf_fx upper s" and "kept self s" for v s
    using wf_store_currency_iso_to_countries_map [OF that(2), of v] that(1) kept_data [OF that(3)] by simp
  show "kept self (s\<lparr>cache_currency_iso_to_countries_map := Some v\<rparr>)"
    if "cache_currency_iso_to_countries_map self = None" and "kept self s" for v s
    using that by (rule kept_store_currency_iso_to_countries_map)
qed

lemma run_currency_iso_to_owner_country_map:
  assumes "wf_fx upper self"
  shows "returns upper (currency_iso_to_owner_country_map) self
           (currency_iso_to_owner_country_dict (load_entries (data_file_json self)))"
  unfolding currency_iso_to_owner_country_map_def
proof (rule returns_cached_property [OF _ _ _ _ assms])
  let ?jd = "load_entries (data_file_json self)"
  have "returns upper (fx_bind json_data (\<lambda>jd self. (currency_iso_to_owner_country_dict jd, self))) self
          (and_then (Inr ?jd) (\<lambda>jd. currency_iso_to_owner_country_dict jd))"
    using run_json_data [OF assms] by (rule returns_bind) (simp add: returns_pure)
  then show "returns upper (fx_bind json_data (\<lambda>jd self. (currency_iso_to_owner_country_dict jd, self))) self
          (currency_iso_to_owner_country_dict ?jd)"
    by simp
  show "currency_iso_to_owner_country_dict ?jd = Inr v" if "cache_currency_iso_to_owner_country_map self = Some v" for v
    using assms that by (rule wf_slot_currency_iso_to_owner_country_map)
  show "wf_fx upper (s\<lparr>cache_currency_iso_to_owner_country_map := Some v\<rparr>)"
    if "currency_iso_to_owner_country_dict ?jd = Inr v" and "wf_fx upper s" and "kept self s" for v s
    using wf_store_currency_iso_to_owner_country_map [OF that(2), of v] that(1) kept_data [OF that(3)] by simp
  show "kept self (s\<lparr>cache_currency_iso_to_owner_country_map := Some v\<rparr>)"
    if "cache_currency_iso_to_owner_country_map self = None" and "kept self s" for v s
    using that by (rule kept_store_currency_iso_to_owner_country_map)
qed

lemma run_country_to_primary_currency_iso_map:
  assumes "wf_fx upper self"
  shows "returns upper (country_to_primary_currency_iso_map upper) self
           (country_to_primary_currency_iso_dict upper (load_entries (data_file_json self)))"
  unfolding country_to_primary_currency_iso_map_def
proof (rule returns_cached_property [OF _ _ _ _ assms])
  let ?jd = "load_entries (data_file_json self)"
  have "returns upper (fx_bind json_data (\<lambda>jd self. (country_to_primary_currency_iso_dict upper jd, self))) self
          (and_then (Inr ?jd) (\<lambda>jd. country_to_primary_currency_iso_dict upper jd))"
    using run_json_data [OF assms] by (rule returns_bind) (simp add: returns_pure)
  then show "returns upper (fx_bind json_data (\<lambda>jd self. (country_to_primary_currency_iso_dict upper jd, self))) self
          (country_to_primary_currency_iso_dict upper ?jd)"
    by simp
  show "country_to_primary_currency_iso_dict upper ?jd = Inr v" if "cache_country_to_primary_currency_iso_map self = Some v" for v
    using assms that by (rule wf_slot_country_to_primary_currency_iso_map)
  show "wf_fx upper (s\<lparr>cache_country_to_primary_currency_iso_map := Some v\<rparr>)"
    if "country_to_primary_currency_iso_dict upper ?jd = Inr v" and "wf_fx upper s" and "kept self s" for v s
    using wf_store_country_to_primary_currency_iso_map [OF that(2), of v] that(1) kept_data [OF that(3)] by simp
  show "kept self (s\<lparr>cache_country_to_primary_currency_iso_map := Some v\<rparr>)"
    if "cache_country_to_primary_currency_iso_map self = None" and "kept self s" for v s
    using that by (rule kept_store_country_to_primary_currency_iso_map)
qed

lemma kept_restore_country_to_currency_isos_map:
  assumes "wf_fx upper s"
    and "country_to_currency_isos_dict upper (load_entries (data_file_json s)) = Inr d"
  shows "kept s (s\<lparr>cache_country_to_currency_isos_map := Some d\<rparr>)"
proof (cases "cache_country_to_currency_isos_map s")
  case None
  then show ?thesis using kept_refl by (rule kept_store_country_to_currency_isos_map)
next
  case (Some v)
  with assms have "v = d"
    using wf_slot_country_to_currency_isos_map [OF assms(1) Some] by simp
  with Some show ?thesis by (simp add: kept_def kept_slot_def)
qed

lemma kept_restore_currency_iso_to_countries_map:
  assumes "wf_fx upper s"
    and "currency_iso_to_countries_dict (load_entries (data_file_json s)) = Inr d"
  shows "kept s (s\<lparr>cache_currency_iso_to_countries_map := Some d\<rparr>)"
proof (cases "cache_currency_iso_to_countries_map s")
  case None
  then show ?thesis using kept_refl by (rule kept_store_currency_iso_to_countries_map)
next
  case (Some v)
  with assms have "v = d"
    using wf_slot_currency_iso_to_countries_map [OF assms(1) Some] by simp
  with Some show ?thesis by (simp add: kept_def kept_slot_def)
qed

subsection \<open>What each query returns, in terms of the indexes\<close>

lemma run_currency_iso_from_currency:
  assumes "wf_fx upper self"
  shows "returns upper (currency_iso_from_currency upper currency) self
           (and_then (currency_to_currency_iso_dict upper (load_entries (data_file_json self)))
              (\<lambda>m. Inr (m (upper currency))))"
  unfolding currency_iso_from_currency_def
  using run_currency_to_currency_iso_map [OF assms]
  by (rule returns_bind) (simp add: returns_pure)

lemma run_currency_from_currency_iso:
  assumes "wf_fx upper self"
  shows "returns upper (currency_from_currency_iso upper iso_code) self
           (and_then (currency_iso_to_currency_dict (load_entries (data_file_json self)))
              (\<lambda>m. Inr (m (upper iso_code))))"
  unfolding currency_from_currency_iso_def
  using run_currency_iso_to_currency_map [OF assms]
  by (rule returns_bind) (simp add: returns_pure)

lemma run_currency_isos_from_country:
  assumes "wf_fx upper self"
  shows "returns upper (currency_isos_from_country upper country) self
           (and_then (country_to_currency_isos_dict upper (load_entries (data_file_json self)))
              (\<lambda>d. Inr (case d (upper country) of None \<Rightarrow> {} | Some s \<Rightarrow> s)))"
  unfolding currency_isos_from_country_def
  using run_country_to_currency_isos_map [OF assms]
proof (rule returns_bind)
  fix d s
  assume d: "country_to_currency_isos_dict upper (load_entries (data_file_json self)) = Inr d"
    and wf: "wf_fx upper s" and k: "kept self s"
  have d': "country_to_currency_isos_dict upper (load_entries (data_file_json s)) = Inr d"
    using d kept_data [OF k] by simp
  have "wf_fx upper (s\<lparr>cache_country_to_currency_isos_map := Some d\<rparr>)"
    using wf d' by (rule wf_store_country_to_currency_isos_map)
  moreover have "kept s (s\<lparr>cache_country_to_currency_isos_map := Some d\<rparr>)"
    using wf d' by (rule kept_restore_country_to_currency_isos_map)
  ultimately show "returns upper
      (\<lambda>self. case dd_get d (upper country) of
         (isos, d') \<Rightarrow>
           (Inr (case isos of None \<Rightarrow> {} | Some s \<Rightarrow> s),
            self\<lparr>cache_country_to_currency_isos_map := Some d'\<rparr>))
      s (Inr (case d (upper country) of None \<Rightarrow> {} | Some s \<Rightarrow> s))"
    by (simp add: returns_def dd_get_def)
qed

lemma run_countries_from_currency_iso:
  assumes "wf_fx upper self"
  shows "returns upper (countries_from_currency_iso upper currency_iso) self
           (and_then (currency_iso_to_countries_dict (load_entries (data_file_json self)))
              (\<lambda>d. Inr (case d (upper currency_iso) of None \<Rightarrow> {} | Some s \<Rightarrow> s)))"
  unfolding countries_from_currency_iso_def
  using run_currency_iso_to_countries_map [OF assms]
proof (rule returns_bind)
  fix d s
  assume d: "currency_iso_to_countries_dict (load_entries (data_file_json self)) = Inr d"
    and wf: "wf_fx upper s" and k: "kept self s"
  have d': "currency_iso_to_countries_dict (load_entries (data_file_json s)) = Inr d"
    using d kept_data [OF k] by simp
  have "wf_fx upper (s\<lparr>cache_currency_iso_to_countries_map := Some d\<rparr>)"
    using wf d' by (rule wf_store_currency_iso_to_countries_map)
  moreover have "kept s (s\<lparr>cache_currency_iso_to_countries_map := Some d\<rparr>)"
    using wf d' by (rule kept_restore_currency_iso_to_countries_map)
  ultimately show "returns upper
      (\<lambda>self. case dd_get d (upper currency_iso) of
         (countries, d') \<Rightarrow>
           (Inr (case countries of None \<Rightarrow> {} | Some s \<Rightarrow> s),
            self\<lparr>cache_currency_iso_to_countries_map := Some d'\<rparr>))
      s (Inr (case d (upper currency_iso) of None \<Rightarrow> {} | Some s \<Rightarrow> s))"
    by (simp add: returns_def dd_get_def)
qed

subsection \<open>The indexes, in terms of the records\<close>

lemma iso_loaded:
  "e \<in> set (load_entries data) \<Longrightarrow> JSON_CURRENCY_ISO e = Inr (the (AlphabeticCode e))"
  by (auto simp add: load_entries_def JSON_CURRENCY_ISO_def subscript_def)

lemma country_loaded:
  "has_entities data \<Longrightarrow> e \<in> set (load_entries data) \<Longrightarrow>
     JSON_COUNTRY e = Inr (the (Entity e))"
  by (auto simp add: load_entries_def has_entities_def JSON_COUNTRY_def subscript_def)

lemma currency_loaded:
  "has_currencies data \<Longrightarrow> e \<in> set (load_entries data) \<Longrightarrow>
     JSON_CURRENCY e = Inr (the (Currency e))"
  by (auto simp add: load_entries_def has_currencies_def JSON_CURRENCY_def subscript_def)

lemma country_missing:
  "\<not> has_entities data \<Longrightarrow>
     \<exists>e \<in> set (load_entries data). JSON_COUNTRY e = Inl (KeyError ''Entity'')"
  by (auto simp add: load_entries_def has_entities_def JSON_COUNTRY_def subscript_def)

lemma currency_missing:
  "\<not> has_currencies data \<Longrightarrow>
     \<exists>e \<in> set (load_entries data). JSON_CURRENCY e = Inl (KeyError ''Currency'')"
  by (auto simp add: load_entries_def has_currencies_def JSON_CURRENCY_def subscript_def)

lemma country_either:
  "JSON_COUNTRY e = Inl (KeyError ''Entity'') \<or> (\<exists>c. JSON_COUNTRY e = Inr c)"
  by (cases "Entity e") (simp_all add: JSON_COUNTRY_def subscript_def)

lemma currency_either:
  "JSON_CURRENCY e = Inl (KeyError ''Currency'') \<or> (\<exists>c. JSON_CURRENCY e = Inr c)"
  by (cases "Currency e") (simp_all add: JSON_CURRENCY_def subscript_def)

lemma currency_to_currency_iso_dict_ok:
  assumes "has_currencies data"
  shows "currency_to_currency_iso_dict upper (load_entries data) =
           Inr (dict_of (map (\<lambda>e. (upper (the (Currency e)), the (AlphabeticCode e)))
                  (load_entries data)))"
  unfolding currency_to_currency_iso_dict_def dict_of_def
  by (rule for_each_ok) (simp add: currency_loaded [OF assms] iso_loaded)

lemma currency_iso_to_currency_dict_ok:
  assumes "has_currencies data"
  shows "currency_iso_to_currency_dict (load_entries data) =
           Inr (dict_of (map (\<lambda>e. (the (AlphabeticCode e), the (Currency e)))
                  (load_entries data)))"
  unfolding currency_iso_to_currency_dict_def dict_of_def
  by (rule for_each_ok) (simp add: currency_loaded [OF assms] iso_loaded)

lemma country_to_currency_isos_dict_ok:
  assumes "has_entities data"
  shows "country_to_currency_isos_dict upper (load_entries data) =
           Inr (setdict_of (map (\<lambda>e. (upper (the (Entity e)), the (AlphabeticCode e)))
                  (load_entries data)))"
  unfolding country_to_currency_isos_dict_def setdict_of_def
  by (rule for_each_ok) (simp add: country_loaded [OF assms] iso_loaded)

lemma currency_iso_to_countries_dict_ok:
  assumes "has_entities data"
  shows "currency_iso_to_countries_dict (load_entries data) =
           Inr (setdict_of (map (\<lambda>e. (the (AlphabeticCode e), the (Entity e)))
                  (load_entries data)))"
  unfolding currency_iso_to_countries_dict_def setdict_of_def
  by (rule for_each_ok) (simp add: country_loaded [OF assms] iso_loaded)

lemma currency_iso_to_owner_country_dict_ok:
  assumes "has_entities data"
  shows "currency_iso_to_owner_country_dict (load_entries data) =
           Inr (dict_of (map (\<lambda>e. (the (AlphabeticCode e), the (Entity e)))
                  (filter Owner (load_entries data))))"
  unfolding currency_iso_to_owner_country_dict_def dict_of_def
  by (rule for_each_ok) (auto simp add: country_loaded [OF assms] iso_loaded)

lemma country_to_primary_currency_iso_dict_ok:
  assumes "has_entities data"
  shows "country_to_primary_currency_iso_dict upper (load_entries data) =
           Inr (dict_of (map (\<lambda>e. (upper (the (Entity e)), the (AlphabeticCode e)))
                  (filter Primary (load_entries data))))"
  unfolding country_to_primary_currency_iso_dict_def dict_of_def
  by (rule for_each_ok) (auto simp add: country_loaded [OF assms] iso_loaded)

lemma currency_to_currency_iso_dict_fail:
  assumes "\<not> has_currencies data"
  shows "currency_to_currency_iso_dict upper (load_entries data) = Inl (KeyError ''Currency'')"
  unfolding currency_to_currency_iso_dict_def
proof (rule for_each_fail)
  show "\<forall>x \<in> set (load_entries data).
      and_then (JSON_CURRENCY x) (\<lambda>v.
        and_then (JSON_CURRENCY_ISO x) (\<lambda>code. Inr (upper v, code)))
        = Inl (KeyError ''Currency'') \<or>
      (\<exists>kv. and_then (JSON_CURRENCY x) (\<lambda>v.
        and_then (JSON_CURRENCY_ISO x) (\<lambda>code. Inr (upper v, code))) = Inr kv)"
  proof
    fix x
    assume "x \<in> set (load_entries data)"
    then show "and_then (JSON_CURRENCY x) (\<lambda>v.
        and_then (JSON_CURRENCY_ISO x) (\<lambda>code. Inr (upper v, code)))
        = Inl (KeyError ''Currency'') \<or>
      (\<exists>kv. and_then (JSON_CURRENCY x) (\<lambda>v.
        and_then (JSON_CURRENCY_ISO x) (\<lambda>code. Inr (upper v, code))) = Inr kv)"
      by (cases "Currency x") (simp_all add: iso_loaded JSON_CURRENCY_def subscript_def)
  qed
  from currency_missing [OF assms] obtain x
    where "x \<in> set (load_entries data)" and "JSON_CURRENCY x = Inl (KeyError ''Currency'')"
    by blast
  then show "\<exists>x \<in> set (load_entries data).
      and_then (JSON_CURRENCY x) (\<lambda>v.
        and_then (JSON_CURRENCY_ISO x) (\<lambda>code. Inr (upper v, code)))
        = Inl (KeyError ''Currency'')"
    by (intro bexI [of _ x]) (simp_all add: iso_loaded)
qed

lemma currency_iso_to_currency_dict_fail:
  assumes "\<not> has_currencies data"
  shows "currency_iso_to_currency_dict (load_entries data) = Inl (KeyError ''Currency'')"
  unfolding currency_iso_to_currency_dict_def
proof (rule for_each_fail)
  show "\<forall>x \<in> set (load_entries data).
      and_then (JSON_CURRENCY_ISO x) (\<lambda>code.
        and_then (JSON_CURRENCY x) (\<lambda>v. Inr (code, v)))
        = Inl (KeyError ''Currency'') \<or>
      (\<exists>kv. and_then (JSON_CURRENCY_ISO x) (\<lambda>code.
        and_then (JSON_CURRENCY x) (\<lambda>v. Inr (code, v))) = Inr kv)"
  proof
    fix x
    assume "x \<in> set (load_entries data)"
    then show "and_then (JSON_CURRENCY_ISO x) (\<lambda>code.
        and_then (JSON_CURRENCY x) (\<lambda>v. Inr (code, v)))
        = Inl (KeyError ''Currency'') \<or>
      (\<exists>kv. and_then (JSON_CURRENCY_ISO x) (\<lambda>code.
        and_then (JSON_CURRENCY x) (\<lambda>v. Inr (code, v))) = Inr kv)"
      by (cases "Currency x") (simp_all add: iso_loaded JSON_CURRENCY_def subscript_def)
  qed
  from currency_missing [OF assms] obtain x
    where "x \<in> set (load_entries data)" and "JSON_CURRENCY x = Inl (KeyError ''Currency'')"
    by blast
  then show "\<exists>x \<in> set (load_entries data).
      and_then (JSON_CURRENCY_ISO x) (\<lambda>code.
        and_then (JSON_CURRENCY x) (\<lambda>v. Inr (code, v)))
        = Inl (KeyError ''Currency'')"
    by (intro bexI [of _ x]) (simp_all add: iso_loaded)
qed

lemma country_to_currency_isos_dict_fail:
  assumes "\<not> has_entities data"
  shows "country_to_currency_isos_dict upper (load_entries data) = Inl (KeyError ''Entity'')"
  unfolding country_to_currency_isos_dict_def
proof (rule for_each_fail)
  show "\<forall>x \<in> set (load_entries data).
      and_then (JSON_COUNTRY x) (\<lambda>v.
        and_then (JSON_CURRENCY_ISO x) (\<lambda>code. Inr (upper v, code)))
        = Inl (KeyError ''Entity'') \<or>
      (\<exists>kv. and_then (JSON_COUNTRY x) (\<lambda>v.
        and_then (JSON_CURRENCY_ISO x) (\<lambda>code. Inr (upper v, code))) = Inr kv)"
  proof
    fix x
    assume "x \<in> set (load_entries data)"
    then show "and_then (JSON_COUNTRY x) (\<lambda>v.
        and_then (JSON_CURRENCY_ISO x) (\<lambda>code. Inr (upper v, code)))
        = Inl (KeyError ''Entity'') \<or>
      (\<exists>kv. and_then (JSON_COUNTRY x) (\<lambda>v.
        and_then (JSON_CURRENCY_ISO x) (\<lambda>code. Inr (upper v, code))) = Inr kv)"
      by (cases "Entity x") (simp_all add: iso_loaded JSON_COUNTRY_def subscript_def)
  qed
  from country_missing [OF assms] obtain x
    where "x \<in> set (load_entries data)" and "JSON_COUNTRY x = Inl (KeyError ''Entity'')"
    by blast
  then show "\<exists>x \<in> set (load_entries data).
      and_then (JSON_COUNTRY x) (\<lambda>v.
        and_then (JSON_CURRENCY_ISO x) (\<lambda>code. Inr (upper v, code)))
        = Inl (KeyError ''Entity'')"
    by (intro bexI [of _ x]) (simp_all add: iso_loaded)
qed

lemma currency_iso_to_countries_dict_fail:
  assumes "\<not> has_entities data"
  shows "currency_iso_to_countries_dict (load_entries data) = Inl (KeyError ''Entity'')"
  unfolding currency_iso_to_countries_dict_def
proof (rule for_each_fail)
  show "\<forall>x \<in> set (load_entries data).
      and_then (JSON_CURRENCY_ISO x) (\<lambda>code.
        and_then (JSON_COUNTRY x) (\<lambda>v. Inr (code, v)))
        = Inl (KeyError ''Entity'') \<or>
      (\<exists>kv. and_then (JSON_CURRENCY_ISO x) (\<lambda>code.
        and_then (JSON_COUNTRY x) (\<lambda>v. Inr (code, v))) = Inr kv)"
  proof
    fix x
    assume "x \<in> set (load_entries data)"
    then show "and_then (JSON_CURRENCY_ISO x) (\<lambda>code.
        and_then (JSON_COUNTRY x) (\<lambda>v. Inr (code, v)))
        = Inl (KeyError ''Entity'') \<or>
      (\<exists>kv. and_then (JSON_CURRENCY_ISO x) (\<lambda>code.
        and_then (JSON_COUNTRY x) (\<lambda>v. Inr (code, v))) = Inr kv)"
      by (cases "Entity x") (simp_all add: iso_loaded JSON_COUNTRY_def subscript_def)
  qed
  from country_missing [OF assms] obtain x
    where "x \<in> set (load_entries data)" and "JSON_COUNTRY x = Inl (KeyError ''Entity'')"
    by blast
  then show "\<exists>x \<in> set (load_entries data).
      and_then (JSON_CURRENCY_ISO x) (\<lambda>code.
        and_then (JSON_COUNTRY x) (\<lambda>v. Inr (code, v)))
        = Inl (KeyError ''Entity'')"
    by (intro bexI [of _ x]) (simp_all add: iso_loaded)
qed

lemma in_set_map_filter:
  "y \<in> set (List.map_filter f xs) \<longleftrightarrow> (\<exists>x \<in> set xs. f x = Some y)"
  by (induction xs) (auto split: option.splits)

lemma in_isos_of_country:
  "c \<in> isos_of_country upper data k \<longleftrightarrow>
     (\<exists>e \<in> set data. map_option upper (Entity e) = Some (upper k) \<and> AlphabeticCode e = Some c)"
  by (auto simp add: isos_of_country_def in_set_map_filter split: if_splits)

lemma in_countries_of_iso:
  "x \<in> countries_of_iso upper data c \<longleftrightarrow>
     (\<exists>e \<in> set data. AlphabeticCode e = Some (upper c) \<and> Entity e = Some x)"
  by (auto simp add: countries_of_iso_def in_set_map_filter split: if_splits)

lemma in_names_of_iso:
  "n \<in> set (names_of_iso upper data c) \<longleftrightarrow>
     (\<exists>e \<in> set data. AlphabeticCode e = Some (upper c) \<and> Currency e = Some n)"
  by (auto simp add: names_of_iso_def in_set_map_filter split: if_splits)

lemma in_isos_of_name:
  "c \<in> set (isos_of_name upper data n) \<longleftrightarrow>
     (\<exists>e \<in> set data. map_option upper (Currency e) = Some (upper n) \<and> AlphabeticCode e = Some c)"
  by (auto simp add: isos_of_name_def in_set_map_filter split: if_splits)

lemma finite_isos_of_country: "finite (isos_of_country upper data k)"
  by (simp add: isos_of_country_def)

lemma finite_countries_of_iso: "finite (countries_of_iso upper data c)"
  by (simp add: countries_of_iso_def)

lemma has_entities_Cons:
  "has_entities (e # data) \<longleftrightarrow> (AlphabeticCode e = None \<or> Entity e \<noteq> None) \<and> has_entities data"
  by (simp add: has_entities_def)

lemma has_currencies_Cons:
  "has_currencies (e # data) \<longleftrightarrow>
     (AlphabeticCode e = None \<or> Currency e \<noteq> None) \<and> has_currencies data"
  by (simp add: has_currencies_def)

lemma isos_index:
  assumes "has_entities data"
  shows "(case setdict_of (map (\<lambda>e. (upper (the (Entity e)), the (AlphabeticCode e)))
                  (load_entries data)) (upper k)
          of None \<Rightarrow> {} | Some s \<Rightarrow> s) = isos_of_country upper data k"
proof -
  have loaded: "Entity e \<noteq> None \<and> AlphabeticCode e \<noteq> None" if "e \<in> set (load_entries data)" for e
    using that assms by (auto simp add: load_entries_def has_entities_def)
  have "(\<lambda>e. the (AlphabeticCode e)) `
          {e \<in> set (load_entries data). upper (the (Entity e)) = upper k}
          = isos_of_country upper data k"
  proof (intro set_eqI iffI)
    fix c
    assume "c \<in> (\<lambda>e. the (AlphabeticCode e)) `
          {e \<in> set (load_entries data). upper (the (Entity e)) = upper k}"
    then obtain e where e: "e \<in> set (load_entries data)" "upper (the (Entity e)) = upper k"
        "c = the (AlphabeticCode e)"
      by auto
    with loaded [OF e(1)] have "map_option upper (Entity e) = Some (upper k)"
        "AlphabeticCode e = Some c"
      by auto
    moreover have "e \<in> set data"
      using e(1) by (simp add: load_entries_def)
    ultimately show "c \<in> isos_of_country upper data k"
      unfolding in_isos_of_country by blast
  next
    fix c
    assume "c \<in> isos_of_country upper data k"
    then obtain e where e: "e \<in> set data" "map_option upper (Entity e) = Some (upper k)"
        "AlphabeticCode e = Some c"
      unfolding in_isos_of_country by blast
    then have "e \<in> set (load_entries data)" "upper (the (Entity e)) = upper k"
        "the (AlphabeticCode e) = c"
      by (auto simp add: load_entries_def)
    then show "c \<in> (\<lambda>e. the (AlphabeticCode e)) `
          {e \<in> set (load_entries data). upper (the (Entity e)) = upper k}"
      by force
  qed
  moreover have "isos_of_country upper data k = {}"
    if "\<forall>e \<in> set (load_entries data). upper (the (Entity e)) \<noteq> upper k"
  proof -
    have "c \<notin> isos_of_country upper data k" for c
    proof
      assume "c \<in> isos_of_country upper data k"
      then obtain e where e: "e \<in> set data" "map_option upper (Entity e) = Some (upper k)"
          "AlphabeticCode e = Some c"
        unfolding in_isos_of_country by blast
      then have "e \<in> set (load_entries data)" "upper (the (Entity e)) = upper k"
        by (auto simp add: load_entries_def)
      with that show False by blast
    qed
    then show ?thesis by blast
  qed
  ultimately show ?thesis
    by (simp add: setdict_of_map)
qed

lemma countries_index:
  assumes "has_entities data"
  shows "(case setdict_of (map (\<lambda>e. (the (AlphabeticCode e), the (Entity e)))
                  (load_entries data)) (upper c)
          of None \<Rightarrow> {} | Some s \<Rightarrow> s) = countries_of_iso upper data c"
proof -
  have "(\<lambda>e. the (Entity e)) `
          {e \<in> set (load_entries data). the (AlphabeticCode e) = upper c}
          = countries_of_iso upper data c"
  proof (intro set_eqI iffI)
    fix x
    assume "x \<in> (\<lambda>e. the (Entity e)) `
          {e \<in> set (load_entries data). the (AlphabeticCode e) = upper c}"
    then obtain e where e: "e \<in> set (load_entries data)" "the (AlphabeticCode e) = upper c"
        "x = the (Entity e)"
      by auto
    then have "e \<in> set data" "AlphabeticCode e = Some (upper c)" "Entity e = Some x"
      using assms by (auto simp add: load_entries_def has_entities_def)
    then show "x \<in> countries_of_iso upper data c"
      unfolding in_countries_of_iso by blast
  next
    fix x
    assume "x \<in> countries_of_iso upper data c"
    then obtain e where e: "e \<in> set data" "AlphabeticCode e = Some (upper c)" "Entity e = Some x"
      unfolding in_countries_of_iso by blast
    then have "e \<in> set (load_entries data)" "the (AlphabeticCode e) = upper c" "the (Entity e) = x"
      by (auto simp add: load_entries_def)
    then show "x \<in> (\<lambda>e. the (Entity e)) `
          {e \<in> set (load_entries data). the (AlphabeticCode e) = upper c}"
      by force
  qed
  moreover have "countries_of_iso upper data c = {}"
    if "\<forall>e \<in> set (load_entries data). the (AlphabeticCode e) \<noteq> upper c"
  proof -
    have "x \<notin> countries_of_iso upper data c" for x
    proof
      assume "x \<in> countries_of_iso upper data c"
      then obtain e where e: "e \<in> set data" "AlphabeticCode e = Some (upper c)"
        unfolding in_countries_of_iso by blast
      then have "e \<in> set (load_entries data)" "the (AlphabeticCode e) = upper c"
        by (auto simp add: load_entries_def)
      with that show False by blast
    qed
    then show ?thesis by blast
  qed
  ultimately show ?thesis
    by (simp add: setdict_of_map)
qed

lemma primary_filter:
  "has_entities data \<Longrightarrow>
     filter (\<lambda>e. Primary e \<and> upper (the (Entity e)) = upper k) (load_entries data)
       = primary_records upper data k"
  unfolding primary_records_def load_entries_def
  by (induction data) (auto simp add: has_entities_Cons)

lemma primary_last_code:
  assumes "primary_records upper data k \<noteq> []"
  shows "AlphabeticCode (last (primary_records upper data k)) \<noteq> None"
proof -
  from assms have "last (primary_records upper data k) \<in> set (primary_records upper data k)"
    by (rule last_in_set)
  then show ?thesis
    by (simp add: primary_records_def)
qed

lemma primary_index:
  assumes "has_entities data"
  shows "dict_of (map (\<lambda>e. (upper (the (Entity e)), the (AlphabeticCode e)))
                  (filter Primary (load_entries data))) (upper k) =
     (if primary_records upper data k = [] then None
      else AlphabeticCode (last (primary_records upper data k)))"
  using primary_last_code [of upper data k]
  by (auto simp add: dict_of_map primary_filter [OF assms])

lemma owner_filter:
  "filter (\<lambda>e. Owner e \<and> the (AlphabeticCode e) = upper c) (load_entries data)
     = owner_records upper data c"
  unfolding owner_records_def load_entries_def
  by (induction data) auto

lemma owner_last_entity:
  assumes "has_entities data" and "owner_records upper data c \<noteq> []"
  shows "Entity (last (owner_records upper data c)) \<noteq> None"
proof -
  from assms(2) have "last (owner_records upper data c) \<in> set (owner_records upper data c)"
    by (rule last_in_set)
  then show ?thesis
    using assms(1) by (auto simp add: owner_records_def has_entities_def)
qed

lemma owner_index:
  assumes "has_entities data"
  shows "dict_of (map (\<lambda>e. (the (AlphabeticCode e), the (Entity e)))
                  (filter Owner (load_entries data))) (upper c) =
     (if owner_records upper data c = [] then None
      else Entity (last (owner_records upper data c)))"
  using owner_last_entity [OF assms, of upper c]
  by (auto simp add: dict_of_map owner_filter)

lemma names_filter:
  "has_currencies data \<Longrightarrow>
     map (\<lambda>e. the (Currency e))
       (filter (\<lambda>e. the (AlphabeticCode e) = upper c) (load_entries data))
       = names_of_iso upper data c"
  unfolding names_of_iso_def load_entries_def
  by (induction data) (auto simp add: has_currencies_Cons)

lemma name_index:
  assumes "has_currencies data"
  shows "dict_of (map (\<lambda>e. (the (AlphabeticCode e), the (Currency e))) (load_entries data))
           (upper c) =
     (if names_of_iso upper data c = [] then None
      else Some (last (names_of_iso upper data c)))"
proof -
  have "names_of_iso upper data c =
      map (\<lambda>e. the (Currency e))
        (filter (\<lambda>e. the (AlphabeticCode e) = upper c) (load_entries data))"
    using names_filter [OF assms] by simp
  then show ?thesis
    by (simp add: dict_of_map last_map)
qed

lemma codes_filter:
  "has_currencies data \<Longrightarrow>
     map (\<lambda>e. the (AlphabeticCode e))
       (filter (\<lambda>e. upper (the (Currency e)) = upper n) (load_entries data))
       = isos_of_name upper data n"
  unfolding isos_of_name_def load_entries_def
  by (induction data) (auto simp add: has_currencies_Cons)

lemma code_index:
  assumes "has_currencies data"
  shows "dict_of (map (\<lambda>e. (upper (the (Currency e)), the (AlphabeticCode e)))
           (load_entries data)) (upper n) =
     (if isos_of_name upper data n = [] then None
      else Some (last (isos_of_name upper data n)))"
proof -
  have "isos_of_name upper data n =
      map (\<lambda>e. the (AlphabeticCode e))
        (filter (\<lambda>e. upper (the (Currency e)) = upper n) (load_entries data))"
    using codes_filter [OF assms] by simp
  then show ?thesis
    by (simp add: dict_of_map last_map)
qed

subsection \<open>The plain lookups, in terms of the records\<close>

lemma currency_from_currency_iso_value:
  assumes "wf_fx upper self"
  shows "fst (currency_from_currency_iso upper c self) =
           (if has_currencies (data_file_json self)
            then Inr (if names_of_iso upper (data_file_json self) c = [] then None
                      else Some (last (names_of_iso upper (data_file_json self) c)))
            else Inl (KeyError ''Currency''))"
  using returns_fst [OF run_currency_from_currency_iso [OF assms, of c]]
  by (simp add: currency_iso_to_currency_dict_ok currency_iso_to_currency_dict_fail name_index)

lemma currency_iso_from_currency_value:
  assumes "wf_fx upper self"
  shows "fst (currency_iso_from_currency upper n self) =
           (if has_currencies (data_file_json self)
            then Inr (if isos_of_name upper (data_file_json self) n = [] then None
                      else Some (last (isos_of_name upper (data_file_json self) n)))
            else Inl (KeyError ''Currency''))"
  using returns_fst [OF run_currency_iso_from_currency [OF assms, of n]]
  by (simp add: currency_to_currency_iso_dict_ok currency_to_currency_iso_dict_fail code_index)

lemma currency_isos_from_country_value:
  assumes "wf_fx upper self"
  shows "fst (currency_isos_from_country upper k self) =
           (if has_entities (data_file_json self)
            then Inr (isos_of_country upper (data_file_json self) k)
            else Inl (KeyError ''Entity''))"
  using returns_fst [OF run_currency_isos_from_country [OF assms, of k]]
  by (simp add: country_to_currency_isos_dict_ok country_to_currency_isos_dict_fail isos_index)

lemma countries_from_currency_iso_value:
  assumes "wf_fx upper self"
  shows "fst (countries_from_currency_iso upper c self) =
           (if has_entities (data_file_json self)
            then Inr (countries_of_iso upper (data_file_json self) c)
            else Inl (KeyError ''Entity''))"
  using returns_fst [OF run_countries_from_currency_iso [OF assms, of c]]
  by (simp add: currency_iso_to_countries_dict_ok currency_iso_to_countries_dict_fail
        countries_index)

subsection \<open>The two disambiguating queries\<close>

lemma returns_if:
  assumes "c \<Longrightarrow> returns upper f s a" and "\<not> c \<Longrightarrow> returns upper g s b"
  shows "returns upper (\<lambda>self. if c then f self else g self) s (if c then a else b)"
  using assms by (cases c) (simp_all add: returns_def)

lemma run_currency_iso_from_country_index:
  assumes "wf_fx upper self"
  shows "returns upper (currency_iso_from_country upper country) self
     (and_then
        (and_then (country_to_currency_isos_dict upper (load_entries (data_file_json self)))
           (\<lambda>d. Inr (case d (upper country) of None \<Rightarrow> {} | Some s \<Rightarrow> s)))
        (\<lambda>S. if card S = 0 then Inr None
             else if card S = 1 then Inr (Some (the_elem S))
             else and_then
                    (country_to_primary_currency_iso_dict upper
                       (load_entries (data_file_json self)))
                    (\<lambda>m. case m (upper country) of
                            Some primary \<Rightarrow> Inr (Some primary)
                          | None \<Rightarrow>
                              Inl (FxCodesException
                                 [Text ''No unique currency ISO for country ISO '',
                                  Quoted country, Text '' possibilities: '', SetRepr S]))))"
  unfolding currency_iso_from_country_def Let_def
  using run_currency_isos_from_country [OF assms]
proof (rule returns_bind)
  fix S s
  assume wf: "wf_fx upper s" and k: "kept self s"
  have d: "data_file_json s = data_file_json self"
    using k by (rule kept_data)
  show "returns upper
      (\<lambda>self. if card S = 0 then (Inr None, self)
         else if card S = 1 then (Inr (Some (the_elem S)), self)
         else fx_bind (country_to_primary_currency_iso_map upper)
                (\<lambda>m self. case m (upper country) of
                     Some primary \<Rightarrow> (Inr (Some primary), self)
                   | None \<Rightarrow>
                       (Inl (FxCodesException
                          [Text ''No unique currency ISO for country ISO '', Quoted country,
                           Text '' possibilities: '', SetRepr S]), self)) self)
      s
      (if card S = 0 then Inr None
       else if card S = 1 then Inr (Some (the_elem S))
       else and_then
              (country_to_primary_currency_iso_dict upper (load_entries (data_file_json self)))
              (\<lambda>m. case m (upper country) of
                      Some primary \<Rightarrow> Inr (Some primary)
                    | None \<Rightarrow>
                        Inl (FxCodesException
                           [Text ''No unique currency ISO for country ISO '',
                            Quoted country, Text '' possibilities: '', SetRepr S])))"
  proof (intro returns_if)
    show "returns upper (Pair (Inr None)) s (Inr None)"
      using wf by (rule returns_pure)
    show "returns upper (Pair (Inr (Some (the_elem S)))) s (Inr (Some (the_elem S)))"
      using wf by (rule returns_pure)
    show "returns upper
      (fx_bind (country_to_primary_currency_iso_map upper)
         (\<lambda>m self. case m (upper country) of
              Some primary \<Rightarrow> (Inr (Some primary), self)
            | None \<Rightarrow>
                (Inl (FxCodesException
                   [Text ''No unique currency ISO for country ISO '', Quoted country,
                    Text '' possibilities: '', SetRepr S]), self)))
      s
      (and_then
         (country_to_primary_currency_iso_dict upper (load_entries (data_file_json self)))
         (\<lambda>m. case m (upper country) of
                 Some primary \<Rightarrow> Inr (Some primary)
               | None \<Rightarrow>
                   Inl (FxCodesException
                      [Text ''No unique currency ISO for country ISO '',
                       Quoted country, Text '' possibilities: '', SetRepr S])))"
      using run_country_to_primary_currency_iso_map [OF wf, unfolded d]
      by (rule returns_bind) (simp add: returns_def kept_refl split: option.splits)
  qed
qed

lemma currency_iso_outcome_index:
  assumes "has_entities data"
  shows "and_then
        (and_then (country_to_currency_isos_dict upper (load_entries data))
           (\<lambda>d. Inr (case d (upper country) of None \<Rightarrow> {} | Some s \<Rightarrow> s)))
        (\<lambda>S. if card S = 0 then Inr None
             else if card S = 1 then Inr (Some (the_elem S))
             else and_then
                    (country_to_primary_currency_iso_dict upper (load_entries data))
                    (\<lambda>m. case m (upper country) of
                            Some primary \<Rightarrow> Inr (Some primary)
                          | None \<Rightarrow>
                              Inl (FxCodesException
                                 [Text ''No unique currency ISO for country ISO '',
                                  Quoted country, Text '' possibilities: '', SetRepr S])))
     = currency_iso_outcome upper data country"
proof -
  have c0: "card (isos_of_country upper data country) = 0 \<longleftrightarrow>
      isos_of_country upper data country = {}"
    by (simp add: finite_isos_of_country)
  show ?thesis
  proof (cases "primary_records upper data country = []")
    case True
    then show ?thesis
      by (simp add: country_to_currency_isos_dict_ok [OF assms]
            country_to_primary_currency_iso_dict_ok [OF assms] isos_index [OF assms]
            primary_index [OF assms] currency_iso_outcome_def Let_def c0)
  next
    case False
    with primary_last_code [OF False] obtain y
      where "AlphabeticCode (last (primary_records upper data country)) = Some y"
      by auto
    with False show ?thesis
      by (simp add: country_to_currency_isos_dict_ok [OF assms]
            country_to_primary_currency_iso_dict_ok [OF assms] isos_index [OF assms]
            primary_index [OF assms] currency_iso_outcome_def Let_def c0)
  qed
qed

lemma run_currency_iso_from_country:
  assumes "wf_fx upper self"
  shows "returns upper (currency_iso_from_country upper country) self
           (if has_entities (data_file_json self)
            then currency_iso_outcome upper (data_file_json self) country
            else Inl (KeyError ''Entity''))"
proof (cases "has_entities (data_file_json self)")
  case True
  show ?thesis
    using run_currency_iso_from_country_index [OF assms, of country] True
    by (simp only: currency_iso_outcome_index [OF True] if_True)
next
  case False
  then show ?thesis
    using run_currency_iso_from_country_index [OF assms, of country]
    by (simp add: country_to_currency_isos_dict_fail)
qed

lemma run_country_from_currency_iso_index:
  assumes "wf_fx upper self"
  shows "returns upper (country_from_currency_iso upper currency_iso) self
     (and_then
        (and_then (currency_iso_to_countries_dict (load_entries (data_file_json self)))
           (\<lambda>d. Inr (case d (upper currency_iso) of None \<Rightarrow> {} | Some s \<Rightarrow> s)))
        (\<lambda>S. if card S = 0 then Inr None
             else if card S = 1 then Inr (Some (the_elem S))
             else and_then
                    (currency_iso_to_owner_country_dict (load_entries (data_file_json self)))
                    (\<lambda>m. case m (upper currency_iso) of
                            Some owner \<Rightarrow>
                              (if owner \<noteq> [] then Inr (Some owner)
                               else Inl (FxCodesException
                                 [Text ''No unique ownership for ISO '', Quoted currency_iso,
                                  Text '' used by: '', SetRepr S]))
                          | None \<Rightarrow>
                              Inl (FxCodesException
                                 [Text ''No unique ownership for ISO '', Quoted currency_iso,
                                  Text '' used by: '', SetRepr S]))))"
  unfolding country_from_currency_iso_def Let_def
  using run_countries_from_currency_iso [OF assms]
proof (rule returns_bind)
  fix S s
  assume wf: "wf_fx upper s" and k: "kept self s"
  have d: "data_file_json s = data_file_json self"
    using k by (rule kept_data)
  show "returns upper
      (\<lambda>self. if card S = 0 then (Inr None, self)
         else if card S = 1 then (Inr (Some (the_elem S)), self)
         else fx_bind currency_iso_to_owner_country_map
                (\<lambda>m self. case m (upper currency_iso) of
                     Some owner \<Rightarrow>
                       (if owner \<noteq> [] then (Inr (Some owner), self)
                        else (Inl (FxCodesException
                          [Text ''No unique ownership for ISO '', Quoted currency_iso,
                           Text '' used by: '', SetRepr S]), self))
                   | None \<Rightarrow>
                       (Inl (FxCodesException
                          [Text ''No unique ownership for ISO '', Quoted currency_iso,
                           Text '' used by: '', SetRepr S]), self)) self)
      s
      (if card S = 0 then Inr None
       else if card S = 1 then Inr (Some (the_elem S))
       else and_then
              (currency_iso_to_owner_country_dict (load_entries (data_file_json self)))
              (\<lambda>m. case m (upper currency_iso) of
                      Some owner \<Rightarrow>
                        (if owner \<noteq> [] then Inr (Some owner)
                         else Inl (FxCodesException
                           [Text ''No unique ownership for ISO '', Quoted currency_iso,
                            Text '' used by: '', SetRepr S]))
                    | None \<Rightarrow>
                        Inl (FxCodesException
                           [Text ''No unique ownership for ISO '', Quoted currency_iso,
                            Text '' used by: '', SetRepr S])))"
  proof (intro returns_if)
    show "returns upper (Pair (Inr None)) s (Inr None)"
      using wf by (rule returns_pure)
    show "returns upper (Pair (Inr (Some (the_elem S)))) s (Inr (Some (the_elem S)))"
      using wf by (rule returns_pure)
    show "returns upper
      (fx_bind currency_iso_to_owner_country_map
         (\<lambda>m self. case m (upper currency_iso) of
              Some owner \<Rightarrow>
                (if owner \<noteq> [] then (Inr (Some owner), self)
                 else (Inl (FxCodesException
                   [Text ''No unique ownership for ISO '', Quoted currency_iso,
                    Text '' used by: '', SetRepr S]), self))
            | None \<Rightarrow>
                (Inl (FxCodesException
                   [Text ''No unique ownership for ISO '', Quoted currency_iso,
                    Text '' used by: '', SetRepr S]), self)))
      s
      (and_then
         (currency_iso_to_owner_country_dict (load_entries (data_file_json self)))
         (\<lambda>m. case m (upper currency_iso) of
                 Some owner \<Rightarrow>
                   (if owner \<noteq> [] then Inr (Some owner)
                    else Inl (FxCodesException
                      [Text ''No unique ownership for ISO '', Quoted currency_iso,
                       Text '' used by: '', SetRepr S]))
               | None \<Rightarrow>
                   Inl (FxCodesException
                      [Text ''No unique ownership for ISO '', Quoted currency_iso,
                       Text '' used by: '', SetRepr S])))"
      using run_currency_iso_to_owner_country_map [OF wf, unfolded d]
      by (rule returns_bind) (simp add: returns_def kept_refl split: option.splits)
  qed
qed

lemma country_outcome_index:
  assumes "has_entities data"
  shows "and_then
        (and_then (currency_iso_to_countries_dict (load_entries data))
           (\<lambda>d. Inr (case d (upper currency_iso) of None \<Rightarrow> {} | Some s \<Rightarrow> s)))
        (\<lambda>S. if card S = 0 then Inr None
             else if card S = 1 then Inr (Some (the_elem S))
             else and_then
                    (currency_iso_to_owner_country_dict (load_entries data))
                    (\<lambda>m. case m (upper currency_iso) of
                            Some owner \<Rightarrow>
                              (if owner \<noteq> [] then Inr (Some owner)
                               else Inl (FxCodesException
                                 [Text ''No unique ownership for ISO '', Quoted currency_iso,
                                  Text '' used by: '', SetRepr S]))
                          | None \<Rightarrow>
                              Inl (FxCodesException
                                 [Text ''No unique ownership for ISO '', Quoted currency_iso,
                                  Text '' used by: '', SetRepr S])))
     = country_outcome upper data currency_iso"
proof -
  have c0: "card (countries_of_iso upper data currency_iso) = 0 \<longleftrightarrow>
      countries_of_iso upper data currency_iso = {}"
    by (simp add: finite_countries_of_iso)
  show ?thesis
  proof (cases "owner_records upper data currency_iso = []")
    case True
    then show ?thesis
      by (simp add: currency_iso_to_countries_dict_ok [OF assms]
            currency_iso_to_owner_country_dict_ok [OF assms] countries_index [OF assms]
            owner_index [OF assms] country_outcome_def Let_def c0)
  next
    case False
    with owner_last_entity [OF assms False] obtain y
      where "Entity (last (owner_records upper data currency_iso)) = Some y"
      by auto
    with False show ?thesis
      by (simp add: currency_iso_to_countries_dict_ok [OF assms]
            currency_iso_to_owner_country_dict_ok [OF assms] countries_index [OF assms]
            owner_index [OF assms] country_outcome_def Let_def c0)
  qed
qed

lemma run_country_from_currency_iso:
  assumes "wf_fx upper self"
  shows "returns upper (country_from_currency_iso upper currency_iso) self
           (if has_entities (data_file_json self)
            then country_outcome upper (data_file_json self) currency_iso
            else Inl (KeyError ''Entity''))"
proof (cases "has_entities (data_file_json self)")
  case True
  show ?thesis
    using run_country_from_currency_iso_index [OF assms, of currency_iso] True
    by (simp only: country_outcome_index [OF True] if_True)
next
  case False
  then show ?thesis
    using run_country_from_currency_iso_index [OF assms, of currency_iso]
    by (simp add: currency_iso_to_countries_dict_fail)
qed

subsection \<open>The example data\<close>

lemma example_complete:
  "has_entities example_data" "has_currencies example_data"
  "has_entities owner_bug_data" "has_currencies shared_name_data"
  "has_currencies lower_code_data" "\<not> has_currencies no_currency_data"
  "\<not> has_entities no_entity_data" "has_entities sharp_s_data"
  "has_currencies sharp_s_data"
  by code_simp+

lemma example_isos:
  "isos_of_country ascii_upper example_data ''xx'' = {}"
  "isos_of_country ascii_upper example_data ''us'' = {''USD''}"
  "isos_of_country ascii_upper example_data ''ch'' = {''CHF'', ''CHE''}"
  "isos_of_country ascii_upper example_data ''cu'' = {''CUP'', ''CUC''}"
  by code_simp+

lemma example_primary:
  "primary_records ascii_upper example_data ''ch'' =
     [rec ''CH'' ''Swiss Franc'' (Some ''CHF'') False True]"
  "primary_records ascii_upper example_data ''cu'' = []"
  by code_simp+

lemma example_countries:
  "countries_of_iso ascii_upper example_data ''zzz'' = {}"
  "countries_of_iso ascii_upper example_data ''chf'' = {''CH''}"
  "countries_of_iso ascii_upper example_data ''usd'' = {''US'', ''EC''}"
  "countries_of_iso ascii_upper example_data ''eur'' = {''FR'', ''DE''}"
  by code_simp+

lemma example_owner:
  "owner_records ascii_upper example_data ''usd'' =
     [rec ''US'' ''US Dollar'' (Some ''USD'') True False]"
  "owner_records ascii_upper example_data ''eur'' = []"
  by code_simp+

lemma owner_bug_facts:
  "countries_of_iso ascii_upper owner_bug_data ''EUR'' = {[], ''FR''}"
  "owner_records ascii_upper owner_bug_data ''EUR'' = [rec [] ''Euro'' (Some ''EUR'') True False]"
  by code_simp+

lemma example_run:
  "fst (currency_isos_from_country ascii_upper k (FxCodes example_data)) =
     Inr (isos_of_country ascii_upper example_data k)"
  "fst (countries_from_currency_iso ascii_upper k (FxCodes example_data)) =
     Inr (countries_of_iso ascii_upper example_data k)"
  "fst (currency_iso_from_country ascii_upper k (FxCodes example_data)) =
     currency_iso_outcome ascii_upper example_data k"
  "fst (country_from_currency_iso ascii_upper k (FxCodes example_data)) =
     country_outcome ascii_upper example_data k"
  "fst (currency_from_currency_iso ascii_upper k (FxCodes example_data)) =
     Inr (if names_of_iso ascii_upper example_data k = [] then None
          else Some (last (names_of_iso ascii_upper example_data k)))"
  "fst (currency_iso_from_currency ascii_upper k (FxCodes example_data)) =
     Inr (if isos_of_name ascii_upper example_data k = [] then None
          else Some (last (isos_of_name ascii_upper example_data k)))"
  using currency_isos_from_country_value [OF wf_FxCodes [of ascii_upper example_data], of k]
    countries_from_currency_iso_value [OF wf_FxCodes [of ascii_upper example_data], of k]
    returns_fst [OF run_currency_iso_from_country [OF wf_FxCodes [of ascii_upper example_data], of k]]
    returns_fst [OF run_country_from_currency_iso [OF wf_FxCodes [of ascii_upper example_data], of k]]
    currency_from_currency_iso_value [OF wf_FxCodes [of ascii_upper example_data], of k]
    currency_iso_from_currency_value [OF wf_FxCodes [of ascii_upper example_data], of k]
  by (simp_all add: data_FxCodes example_complete)

subsection \<open>The owner of a currency, case by case\<close>

text \<open>
  What \<^verbatim>\<open>country_from_currency_iso\<close> does in each case. It is the counterpart of
  \<^verbatim>\<open>currency_iso_from_country\<close>, except in the third case: the owner is returned only when
  its country name is not the empty string.
\<close>

lemma country_from_currency_iso_cases:
  assumes "wf_fx upper self"
  shows "let r = fst (country_from_currency_iso upper c self);
             s = fst (countries_from_currency_iso upper c self);
             os = owner_records upper (data_file_json self) c
         in (s = Inr {} \<longrightarrow> r = Inr None) \<and>
            (\<forall>x. s = Inr {x} \<longrightarrow> r = Inr (Some x)) \<and>
            (\<forall>S. s = Inr S \<and> 2 \<le> card S \<and> os \<noteq> [] \<and> Entity (last os) \<noteq> Some [] \<longrightarrow>
               r = Inr (Entity (last os)) \<and> Entity (last os) \<in> Some ` S) \<and>
            (\<forall>S. s = Inr S \<and> 2 \<le> card S \<and> (os = [] \<or> Entity (last os) = Some []) \<longrightarrow>
               r = Inl (FxCodesException
                     [Text ''No unique ownership for ISO '', Quoted c,
                      Text '' used by: '', SetRepr S])) \<and>
            (\<forall>S. s = Inr S \<longrightarrow> S = countries_of_iso upper (data_file_json self) c) \<and>
            (has_entities (data_file_json self) \<longrightarrow>
               s = Inr (countries_of_iso upper (data_file_json self) c)) \<and>
            (\<forall>e. s = Inl e \<longrightarrow> r = Inl e)"
proof (cases "has_entities (data_file_json self)")
  case True
  let ?d = "data_file_json self"
  have r: "fst (country_from_currency_iso upper c self) = country_outcome upper ?d c"
    using returns_fst [OF run_country_from_currency_iso [OF assms, of c]] True by simp
  have s: "fst (countries_from_currency_iso upper c self) = Inr (countries_of_iso upper ?d c)"
    using countries_from_currency_iso_value [OF assms, of c] True by simp
  have two: "countries_of_iso upper ?d c \<noteq> {} \<and> card (countries_of_iso upper ?d c) \<noteq> 1"
    if "2 \<le> card (countries_of_iso upper ?d c)"
    using that by auto
  have mem: "Entity (last (owner_records upper ?d c)) \<in> Some ` countries_of_iso upper ?d c"
    if "owner_records upper ?d c \<noteq> []"
  proof -
    define e where "e = last (owner_records upper ?d c)"
    from that have "e \<in> set (owner_records upper ?d c)"
      unfolding e_def by (rule last_in_set)
    then have e: "e \<in> set ?d" "AlphabeticCode e = Some (upper c)"
      by (simp_all add: owner_records_def)
    with True obtain y where y: "Entity e = Some y"
      by (auto simp add: has_entities_def)
    with e have "y \<in> countries_of_iso upper ?d c"
      unfolding in_countries_of_iso by (intro bexI [of _ e]) simp_all
    with y show ?thesis
      unfolding e_def [symmetric] by simp
  qed
  show ?thesis
    unfolding Let_def r s
    using two mem by (auto simp add: country_outcome_def Let_def)
next
  case False
  have "fst (country_from_currency_iso upper c self) = Inl (KeyError ''Entity'')"
    using returns_fst [OF run_country_from_currency_iso [OF assms, of c]] False by simp
  moreover have "fst (countries_from_currency_iso upper c self) = Inl (KeyError ''Entity'')"
    using countries_from_currency_iso_value [OF assms, of c] False by simp
  ultimately show ?thesis
    using False by (simp add: Let_def)
qed

subsection \<open>Keys with the same upper-case form\<close>

lemma isos_of_country_upper:
  "upper s = upper s' \<Longrightarrow> isos_of_country upper data s = isos_of_country upper data s'"
  by (simp add: isos_of_country_def)

lemma primary_records_upper:
  "upper s = upper s' \<Longrightarrow> primary_records upper data s = primary_records upper data s'"
  by (simp add: primary_records_def)

lemma countries_of_iso_upper:
  "upper s = upper s' \<Longrightarrow> countries_of_iso upper data s = countries_of_iso upper data s'"
  by (simp add: countries_of_iso_def)

lemma owner_records_upper:
  "upper s = upper s' \<Longrightarrow> owner_records upper data s = owner_records upper data s'"
  by (simp add: owner_records_def)

lemma names_of_iso_upper:
  "upper s = upper s' \<Longrightarrow> names_of_iso upper data s = names_of_iso upper data s'"
  by (simp add: names_of_iso_def)

lemma isos_of_name_upper:
  "upper s = upper s' \<Longrightarrow> isos_of_name upper data s = isos_of_name upper data s'"
  by (simp add: isos_of_name_def)

lemma returned_currency_iso_outcome:
  "upper s = upper s' \<Longrightarrow>
     returned (currency_iso_outcome upper data s) = returned (currency_iso_outcome upper data s')"
  by (simp add: currency_iso_outcome_def returned_def Let_def
        isos_of_country_upper [of upper s s'] primary_records_upper [of upper s s'])

lemma returned_country_outcome:
  "upper s = upper s' \<Longrightarrow>
     returned (country_outcome upper data s) = returned (country_outcome upper data s')"
  by (simp add: country_outcome_def returned_def Let_def
        countries_of_iso_upper [of upper s s'] owner_records_upper [of upper s s'])

lemma example_names:
  "names_of_iso ascii_upper example_data ''USD'' = [''US Dollar'', ''US Dollar'']"
  "ascii_upper ''usd'' = ''USD''" "ascii_upper ''Usd'' = ''USD''"
  "ascii_upper ''USD'' = ''USD''"
  by code_simp+

lemma sharp_s_facts:
  "german_lower (''WEI'' @ capital_sharp_s @ ''RUSSLAND'') = ''wei'' @ sharp_s @ ''russland''"
  "german_lower (''wei'' @ sharp_s @ ''russland'') = ''wei'' @ sharp_s @ ''russland''"
  "german_upper (''wei'' @ sharp_s @ ''russland'') = ''WEISSRUSSLAND''"
  "german_upper (''WEI'' @ capital_sharp_s @ ''RUSSLAND'') =
     ''WEI'' @ capital_sharp_s @ ''RUSSLAND''"
  "isos_of_country german_upper sharp_s_data (''wei'' @ sharp_s @ ''russland'') = {''BYN''}"
  "isos_of_country german_upper sharp_s_data (''WEI'' @ capital_sharp_s @ ''RUSSLAND'') = {}"
  "german_lower (capital_sharp_s @ ''S'') = sharp_s @ ''s''"
  "german_lower (sharp_s @ ''s'') = sharp_s @ ''s''"
  "names_of_iso german_upper sharp_s_data (sharp_s @ ''s'') = [''Test Unit'']"
  "names_of_iso german_upper sharp_s_data (capital_sharp_s @ ''S'') = []"
  by code_simp+

subsection \<open>The round trip and the unknown keys\<close>

lemma example_round_trip:
  "rec ''US'' ''US Dollar'' (Some ''USD'') True False \<in> set example_data"
  "\<forall>e' \<in> set example_data.
     AlphabeticCode e' \<noteq> None \<and>
     map_option ascii_upper (Currency e') = Some (ascii_upper ''US Dollar'')
     \<longrightarrow> AlphabeticCode e' = Some ''USD''"
  by code_simp+

lemma counter_facts:
  "names_of_iso ascii_upper shared_name_data ''AAA'' = [''Dollar'']"
  "isos_of_name ascii_upper shared_name_data ''Dollar'' = [''AAA'', ''BBB'']"
  "rec ''AA'' ''Dollar'' (Some ''AAA'') False False \<in> set shared_name_data"
  "names_of_iso ascii_upper lower_code_data ''usd'' = []"
  "rec ''US'' ''US Dollar'' (Some ''usd'') False False \<in> set lower_code_data"
  by code_simp+







subsection \<open>The command-line layer\<close>

lemma ascii_upper_append: "ascii_upper (a @ b) = ascii_upper a @ ascii_upper b"
  by (simp add: ascii_upper_def)

lemma phrase_upper:
  "ascii_upper ''unknown country or organization'' = ''UNKNOWN COUNTRY OR ORGANIZATION''"
  "ascii_upper ''Unknown country or organization: '' =
     ''UNKNOWN COUNTRY OR ORGANIZATION'' @ '': ''"
  "ascii_upper ''unknown currency code'' = ''UNKNOWN CURRENCY CODE''"
  "ascii_upper ''Unknown currency ISO: ZZZ'' = ''UNKNOWN CURRENCY ISO: ZZZ''"
  by code_simp+

lemma mentions_unknown_country:
  "mentions ''unknown country or organization'' (''Unknown country or organization: '' @ text)"
  unfolding mentions_def ascii_upper_append phrase_upper
  by (simp del: append.simps add: sublist_def) (metis append_Nil)

lemma not_mentions_unknown_code:
  "\<not> mentions ''unknown currency code'' ''Unknown currency ISO: ZZZ''"
  unfolding mentions_def phrase_upper by code_simp

lemma fst_fx_bind:
  "fst (fx_bind f g self) =
     (case fst (f self) of Inl e \<Rightarrow> Inl e | Inr v \<Rightarrow> fst (g v (snd (f self))))"
  by (simp add: fx_bind_def split: prod.splits sum.splits)

lemma fst_fx_bind_pure: "fst (fx_bind f (\<lambda>v s. (h v, s)) self) = and_then (fst (f self)) h"
  by (simp add: fx_bind_def and_then_def split: prod.splits sum.splits)

lemma name_after:
  assumes "wf_fx upper FX" and "returns upper f FX r"
  shows "fst (currency_from_currency_iso upper code (snd (f FX))) =
           fst (currency_from_currency_iso upper code FX)"
  by (simp add: currency_from_currency_iso_value [OF run_wf [OF assms(2)]] run_data [OF assms(2)]
        currency_from_currency_iso_value [OF assms(1)])

lemma cli_currency_iso_from_country_value:
  assumes "wf_fx upper FX"
  shows "fst (cli_currency_iso_from_country upper cc text FX) =
      (case fst (currency_iso_from_country upper (country_code_of cc text) FX) of
         Inl e \<Rightarrow> Inl e
       | Inr None \<Rightarrow> Inr ([''Unknown country or organization: '' @ text], - 1)
       | Inr (Some code) \<Rightarrow>
           and_then (fst (currency_from_currency_iso upper code FX))
             (\<lambda>name. Inr ([text @ '': '' @ code @ '' ('' @ py_str name @ '')''], 0)))"
proof -
  define key where "key = country_code_of cc text"
  note after = name_after [OF assms run_currency_iso_from_country [OF assms, of key]]
  show ?thesis
    unfolding cli_currency_iso_from_country_def key_def [symmetric] fst_fx_bind
    by (simp add: fst_fx_bind_pure after split: sum.splits option.splits)
qed

lemma cli_country_from_currency_iso_value:
  assumes "wf_fx upper FX"
  shows "fst (cli_country_from_currency_iso upper cc code FX) =
      (case fst (country_from_currency_iso upper code FX) of
         Inl e \<Rightarrow> Inl e
       | Inr None \<Rightarrow> Inr ([''Unknown currency ISO: '' @ code], - 1)
       | Inr (Some country) \<Rightarrow>
           and_then (fst (currency_from_currency_iso upper code FX))
             (\<lambda>name. Inr ([code @ '': '' @
                  (if country \<in> codes cc then getitem cc country else country) @
                  '' ('' @ py_str name @ '')''], 0)))"
proof -
  note after = name_after [OF assms run_country_from_currency_iso [OF assms, of code]]
  show ?thesis
    unfolding cli_country_from_currency_iso_def fst_fx_bind Let_def
    by (simp add: fst_fx_bind_pure after split: sum.splits option.splits)
qed

lemma example_resolution:
  "country_from_iso example_country_codes ''us'' = Some ''United States''"
  "country_from_iso example_country_codes ''Switzerland'' = None"
  "match_country example_country_codes ''Switzerland'' = Some ''Switzerland''"
  "iso_from_country example_country_codes ''Switzerland'' = ''CH''"
  "country_from_iso example_country_codes ''Nowhereland'' = None"
  "match_country example_country_codes ''Nowhereland'' = None"
  "country_from_iso example_country_codes ''CU'' = None"
  "match_country example_country_codes ''CU'' = None"
  "''US'' \<in> codes example_country_codes"
  "''CH'' \<in> codes example_country_codes"
  "getitem example_country_codes ''US'' = ''United States''"
  "getitem example_country_codes ''CH'' = ''Switzerland''"
  by code_simp+

lemma example_isos_upper:
  "isos_of_country ascii_upper example_data ''Nowhereland'' = {}"
  "isos_of_country ascii_upper example_data ''CH'' = {''CHF'', ''CHE''}"
  "isos_of_country ascii_upper example_data ''CU'' = {''CUP'', ''CUC''}"
  "primary_records ascii_upper example_data ''CH'' =
     [rec ''CH'' ''Swiss Franc'' (Some ''CHF'') False True]"
  "primary_records ascii_upper example_data ''CU'' = []"
  "names_of_iso ascii_upper example_data ''CHF'' = [''Swiss Franc'']"
  "names_of_iso ascii_upper example_data ''usd'' = [''US Dollar'', ''US Dollar'']"
  "names_of_iso ascii_upper example_data ''chf'' = [''Swiss Franc'']"
  "names_of_iso ascii_upper example_data ''ZZZ'' = []"
  "countries_of_iso ascii_upper example_data ''ZZZ'' = {}"
  by code_simp+

lemma example_currency_outcomes:
  "currency_iso_outcome ascii_upper example_data ''us'' = Inr (Some ''USD'')"
  "currency_iso_outcome ascii_upper example_data ''CH'' = Inr (Some ''CHF'')"
  "currency_iso_outcome ascii_upper example_data ''Nowhereland'' = Inr None"
  "currency_iso_outcome ascii_upper example_data ''CU'' =
     Inl (FxCodesException
           [Text ''No unique currency ISO for country ISO '', Quoted ''CU'',
            Text '' possibilities: '', SetRepr {''CUP'', ''CUC''}])"
  by (simp_all add: currency_iso_outcome_def example_isos example_isos_upper rec_def)

lemma example_country_outcomes:
  "country_outcome ascii_upper example_data ''usd'' = Inr (Some ''US'')"
  "country_outcome ascii_upper example_data ''chf'' = Inr (Some ''CH'')"
  "country_outcome ascii_upper example_data ''ZZZ'' = Inr None"
  "country_outcome ascii_upper example_data ''eur'' =
     Inl (FxCodesException
           [Text ''No unique ownership for ISO '', Quoted ''eur'',
            Text '' used by: '', SetRepr {''FR'', ''DE''}])"
  by (simp_all add: country_outcome_def example_countries example_owner example_isos_upper
        rec_def)

subsection \<open>Calling a query twice\<close>

lemma stableI:
  assumes run: "\<And>s. wf_fx upper s \<Longrightarrow> returns upper f s (V (data_file_json s))"
    and wf: "wf_fx upper self"
  shows "stable upper f self"
proof -
  note r1 = run [OF wf]
  have wf1: "wf_fx upper (snd (f self))"
    using r1 by (rule run_wf)
  have d1: "data_file_json (snd (f self)) = data_file_json self"
    using r1 by (rule run_data)
  have "fst (f (snd (f self))) = V (data_file_json self)"
    using run [OF wf1] by (simp add: returns_def d1)
  then show ?thesis
    using r1 by (simp add: stable_def returns_def)
qed

lemma slot_after_currency_isos_from_country:
  assumes "wf_fx upper self"
    and "country_to_currency_isos_dict upper (load_entries (data_file_json self)) = Inr d"
  shows "cache_country_to_currency_isos_map (snd (currency_isos_from_country upper k self)) =
           Some d"
proof -
  from run_country_to_currency_isos_map [OF assms(1)] obtain s1
    where "country_to_currency_isos_map upper self = (Inr d, s1)"
    unfolding assms(2) by (rule returnsE)
  then show ?thesis
    by (simp add: currency_isos_from_country_def fx_bind_def dd_get_def)
qed

lemma slot_after_countries_from_currency_iso:
  assumes "wf_fx upper self"
    and "currency_iso_to_countries_dict (load_entries (data_file_json self)) = Inr d"
  shows "cache_currency_iso_to_countries_map (snd (countries_from_currency_iso upper k self)) =
           Some d"
proof -
  from run_currency_iso_to_countries_map [OF assms(1)] obtain s1
    where "currency_iso_to_countries_map self = (Inr d, s1)"
    unfolding assms(2) by (rule returnsE)
  then show ?thesis
    by (simp add: countries_from_currency_iso_def fx_bind_def dd_get_def)
qed

lemma setdict_of_no_empty: "setdict_of (map (\<lambda>e. (f e, g e)) xs) k \<noteq> Some {}"
  by (auto simp add: setdict_of_map)

lemma isos_index_None:
  assumes "country_to_currency_isos_dict upper (load_entries data) = Inr d"
    and "(case d (upper k) of None \<Rightarrow> {} | Some s \<Rightarrow> s) = {}"
  shows "d (upper k) = None"
proof -
  have "has_entities data"
    using assms(1) country_to_currency_isos_dict_fail [of data upper] by auto
  then have "d = setdict_of (map (\<lambda>e. (upper (the (Entity e)), the (AlphabeticCode e)))
                  (load_entries data))"
    using assms(1) by (simp add: country_to_currency_isos_dict_ok)
  then have "d (upper k) \<noteq> Some {}"
    by (simp add: setdict_of_no_empty)
  with assms(2) show ?thesis
    by (cases "d (upper k)") simp_all
qed

lemma countries_index_None:
  assumes "currency_iso_to_countries_dict (load_entries data) = Inr d"
    and "(case d (upper k) of None \<Rightarrow> {} | Some s \<Rightarrow> s) = {}"
  shows "d (upper k) = None"
proof -
  have "has_entities data"
    using assms(1) currency_iso_to_countries_dict_fail [of data] by auto
  then have "d = setdict_of (map (\<lambda>e. (the (AlphabeticCode e), the (Entity e)))
                  (load_entries data))"
    using assms(1) by (simp add: currency_iso_to_countries_dict_ok)
  then have "d (upper k) \<noteq> Some {}"
    by (simp add: setdict_of_no_empty)
  with assms(2) show ?thesis
    by (cases "d (upper k)") simp_all
qed

text \<open>What \<^verbatim>\<open>d[k]\<close> would have done to the map on a missing key.\<close>

lemma dd_getitem_inserts: "d k = None \<Longrightarrow> snd (dd_getitem d k) = d(k \<mapsto> {})"
  by (simp add: dd_getitem_def)

lemma dd_get_keeps: "snd (dd_get d k) = d"
  by (simp add: dd_get_def)

section \<open>Loading the data file\<close>

text \<open>
  C4, as the code has it. \<^verbatim>\<open>json_data\<close> returns, and it keeps an entry of the data file
  exactly when its \<^verbatim>\<open>AlphabeticCode\<close> is there and is not \<^verbatim>\<open>null\<close>: every entry it returns
  has a code, every entry of the file without one is dropped, and every entry of the file
  with one is kept, whatever else it lacks. The test is \<^verbatim>\<open>is not None\<close>, so a code that is
  the empty string counts as a code.
\<close>

theorem json_data_drops_missing_codes:
  assumes "wf_fx upper self"
  shows "\<exists>jd. fst (json_data self) = Inr jd \<and>
              (\<forall>e \<in> set jd. AlphabeticCode e \<noteq> None) \<and>
              (\<forall>e \<in> set (data_file_json self). (e \<in> set jd) = (AlphabeticCode e \<noteq> None))"
  using run_json_data [OF assms] by (auto simp add: returns_def load_entries_def)

text \<open>
  C4, at the example data: the entry of AQ has no code and is dropped, the entry of US is
  kept.
\<close>

theorem json_data_drops_missing_codes_witness:
  "wf_fx ascii_upper (FxCodes example_data) \<and>
   rec ''AQ'' ''No universal currency'' None False False \<in> set example_data \<and>
   (\<exists>jd. fst (json_data (FxCodes example_data)) = Inr jd \<and>
      rec ''AQ'' ''No universal currency'' None False False \<notin> set jd \<and>
      rec ''US'' ''US Dollar'' (Some ''USD'') True False \<in> set jd)"
proof -
  have wf: "wf_fx ascii_upper (FxCodes example_data)"
    by (rule wf_FxCodes)
  have aq: "rec ''AQ'' ''No universal currency'' None False False \<in> set example_data"
    and us: "rec ''US'' ''US Dollar'' (Some ''USD'') True False \<in> set example_data"
    by (simp_all add: example_data_def)
  from json_data_drops_missing_codes [OF wf] obtain jd
    where jd: "fst (json_data (FxCodes example_data)) = Inr jd"
      and *: "\<forall>e \<in> set example_data. (e \<in> set jd) = (AlphabeticCode e \<noteq> None)"
    by (auto simp add: data_FxCodes)
  from * aq have "rec ''AQ'' ''No universal currency'' None False False \<notin> set jd"
    by (simp add: rec_def)
  moreover from * us have "rec ''US'' ''US Dollar'' (Some ''USD'') True False \<in> set jd"
    by (simp add: rec_def)
  ultimately show ?thesis
    using wf aq jd by simp
qed

text \<open>
  C4 as stated fails: an entry whose code is the empty string is not discarded, so a
  retained entry can have an empty \<^verbatim>\<open>currency_iso\<close>.
\<close>

theorem json_data_keeps_empty_code:
  "fst (json_data (FxCodes [rec ''XX'' ''Nothing'' (Some []) False False])) =
     Inr [rec ''XX'' ''Nothing'' (Some []) False False] \<and>
   AlphabeticCode (rec ''XX'' ''Nothing'' (Some []) False False) = Some []"
  by (simp add: json_data_def cached_property_def fx_bind_def FxCodes_def load_entries_def
        rec_def)

section \<open>Disambiguation\<close>

text \<open>
  C1. Take an object in any well-formed state, any function in the place of
  \<^verbatim>\<open>str.upper()\<close> and any country string \<open>k\<close>, and let \<open>s\<close> be what
  \<^verbatim>\<open>currency_isos_from_country\<close> gives for \<open>k\<close>. Then \<^verbatim>\<open>currency_iso_from_country\<close>
  returns \<^verbatim>\<open>None\<close> when \<open>s\<close> is the empty set; the one code when \<open>s\<close> is a singleton,
  whatever the flags say; with two or more codes, the code of the (last) record of \<open>k\<close>
  flagged primary, which is one of the set, when there is such a record; and otherwise
  raises the exception whose message holds \<open>k\<close> as given and the whole set. The set that
  is returned is the set of the codes of the records of \<open>k\<close>, and it is returned whenever
  every record with a code has an \<^verbatim>\<open>Entity\<close>; when the set lookup raises, its exception
  passes through.
\<close>

theorem currency_iso_from_country_cases:
  assumes "wf_fx upper self"
  shows "let r = fst (currency_iso_from_country upper k self);
             s = fst (currency_isos_from_country upper k self);
             ps = primary_records upper (data_file_json self) k
         in (s = Inr {} \<longrightarrow> r = Inr None) \<and>
            (\<forall>c. s = Inr {c} \<longrightarrow> r = Inr (Some c)) \<and>
            (\<forall>S. s = Inr S \<and> 2 \<le> card S \<and> ps \<noteq> [] \<longrightarrow>
               r = Inr (AlphabeticCode (last ps)) \<and> AlphabeticCode (last ps) \<in> Some ` S) \<and>
            (\<forall>S. s = Inr S \<and> 2 \<le> card S \<and> ps = [] \<longrightarrow>
               r = Inl (FxCodesException
                     [Text ''No unique currency ISO for country ISO '', Quoted k,
                      Text '' possibilities: '', SetRepr S])) \<and>
            (\<forall>S. s = Inr S \<longrightarrow> S = isos_of_country upper (data_file_json self) k) \<and>
            (has_entities (data_file_json self) \<longrightarrow>
               s = Inr (isos_of_country upper (data_file_json self) k)) \<and>
            (\<forall>e. s = Inl e \<longrightarrow> r = Inl e)"
proof (cases "has_entities (data_file_json self)")
  case True
  let ?d = "data_file_json self"
  have r: "fst (currency_iso_from_country upper k self) = currency_iso_outcome upper ?d k"
    using returns_fst [OF run_currency_iso_from_country [OF assms, of k]] True by simp
  have s: "fst (currency_isos_from_country upper k self) = Inr (isos_of_country upper ?d k)"
    using currency_isos_from_country_value [OF assms, of k] True by simp
  have two: "isos_of_country upper ?d k \<noteq> {} \<and> card (isos_of_country upper ?d k) \<noteq> 1"
    if "2 \<le> card (isos_of_country upper ?d k)"
    using that by auto
  have mem: "AlphabeticCode (last (primary_records upper ?d k)) \<in> Some ` isos_of_country upper ?d k"
    if "primary_records upper ?d k \<noteq> []"
  proof -
    define e where "e = last (primary_records upper ?d k)"
    from that have "e \<in> set (primary_records upper ?d k)"
      unfolding e_def by (rule last_in_set)
    then have e: "e \<in> set ?d" "AlphabeticCode e \<noteq> None"
        "map_option upper (Entity e) = Some (upper k)"
      by (simp_all add: primary_records_def)
    then obtain y where y: "AlphabeticCode e = Some y"
      by auto
    with e have "y \<in> isos_of_country upper ?d k"
      unfolding in_isos_of_country by (intro bexI [of _ e]) simp_all
    with y show ?thesis
      unfolding e_def [symmetric] by simp
  qed
  show ?thesis
    unfolding Let_def r s
    using two mem by (auto simp add: currency_iso_outcome_def Let_def)
next
  case False
  have "fst (currency_iso_from_country upper k self) = Inl (KeyError ''Entity'')"
    using returns_fst [OF run_currency_iso_from_country [OF assms, of k]] False by simp
  moreover have "fst (currency_isos_from_country upper k self) = Inl (KeyError ''Entity'')"
    using currency_isos_from_country_value [OF assms, of k] False by simp
  ultimately show ?thesis
    using False by (simp add: Let_def)
qed

text \<open>
  C1 at the example data: an unknown country, US with one code, CH with a primary code, CU
  with two codes and no primary one.
\<close>

theorem currency_iso_from_country_cases_witness:
  "wf_fx ascii_upper (FxCodes example_data) \<and>
   fst (currency_iso_from_country ascii_upper ''xx'' (FxCodes example_data)) = Inr None \<and>
   fst (currency_iso_from_country ascii_upper ''us'' (FxCodes example_data)) =
     Inr (Some ''USD'') \<and>
   fst (currency_iso_from_country ascii_upper ''ch'' (FxCodes example_data)) =
     Inr (Some ''CHF'') \<and>
   fst (currency_iso_from_country ascii_upper ''cu'' (FxCodes example_data)) =
     Inl (FxCodesException
           [Text ''No unique currency ISO for country ISO '', Quoted ''cu'',
            Text '' possibilities: '', SetRepr {''CUP'', ''CUC''}])"
proof -
  have wf: "wf_fx ascii_upper (FxCodes example_data)"
    by (rule wf_FxCodes)
  note c = currency_iso_from_country_cases [OF wf, unfolded data_FxCodes Let_def example_run(1)]
  have "fst (currency_iso_from_country ascii_upper ''xx'' (FxCodes example_data)) = Inr None"
    using c [of "''xx''"] by (simp add: example_isos)
  moreover have "fst (currency_iso_from_country ascii_upper ''us'' (FxCodes example_data)) =
      Inr (Some ''USD'')"
    using c [of "''us''"] by (simp add: example_isos)
  moreover have "fst (currency_iso_from_country ascii_upper ''ch'' (FxCodes example_data)) =
      Inr (Some ''CHF'')"
    using c [of "''ch''"] by (simp add: example_isos example_primary rec_def)
  moreover have "fst (currency_iso_from_country ascii_upper ''cu'' (FxCodes example_data)) =
     Inl (FxCodesException
           [Text ''No unique currency ISO for country ISO '', Quoted ''cu'',
            Text '' possibilities: '', SetRepr {''CUP'', ''CUC''}])"
    using c [of "''cu''"] by (simp add: example_isos example_primary)
  ultimately show ?thesis
    using wf by simp
qed

text \<open>
  C2, at the input where the code departs from it. Two countries use EUR and the record
  of the first is flagged as the owner, so an owner record exists; its country name is the
  empty string, which the test \<^verbatim>\<open>elif (owner := ...):\<close> takes for no owner, and the query
  raises instead of returning the owner. The sibling \<^verbatim>\<open>currency_iso_from_country\<close> tests
  \<^verbatim>\<open>is not None\<close>.
\<close>

theorem country_from_currency_iso_empty_owner:
  "owner_records ascii_upper owner_bug_data ''EUR'' = [rec [] ''Euro'' (Some ''EUR'') True False] \<and>
   fst (country_from_currency_iso ascii_upper ''EUR'' (FxCodes owner_bug_data)) =
     Inl (FxCodesException
           [Text ''No unique ownership for ISO '', Quoted ''EUR'',
            Text '' used by: '', SetRepr {[], ''FR''}])"
proof -
  have "fst (country_from_currency_iso ascii_upper ''EUR'' (FxCodes owner_bug_data)) =
          country_outcome ascii_upper owner_bug_data ''EUR''"
    using returns_fst [OF run_country_from_currency_iso
        [OF wf_FxCodes [of ascii_upper owner_bug_data], of "''EUR''"]]
    by (simp add: data_FxCodes example_complete)
  then show ?thesis
    by (simp add: country_outcome_def owner_bug_facts rec_def)
qed

section \<open>The failures\<close>

text \<open>
  C3, as the code has it. Both failures are raised as the one class \<^verbatim>\<open>FxCodesException\<close>.
  Whenever \<^verbatim>\<open>currency_iso_from_country\<close> fails on a key for which the set lookup returns,
  its exception is the message \<^verbatim>\<open>\<close>No unique currency ISO for country ISO'' with the country
  as given and the whole candidate set, which is the set of the codes of the records of the
  country; whenever \<^verbatim>\<open>country_from_currency_iso\<close> fails on a key for which the set lookup
  returns, its exception is the message \<^verbatim>\<open>\<close>No unique ownership for ISO'' with the code as
  given and the whole candidate set, which is the set of the countries of the records of
  the code; neither is the not-found result \<^verbatim>\<open>None\<close>. The two exceptions have the same
  class and differ in their message only. The set lookups return whenever every record
  with a code has an \<^verbatim>\<open>Entity\<close>.
\<close>

theorem ambiguity_failures:
  assumes "wf_fx upper self"
  shows "(\<forall>e S. fst (currency_isos_from_country upper k self) = Inr S \<and>
                 fst (currency_iso_from_country upper k self) = Inl e \<longrightarrow>
            e = FxCodesException
                  [Text ''No unique currency ISO for country ISO '', Quoted k,
                   Text '' possibilities: '', SetRepr S] \<and>
            S = isos_of_country upper (data_file_json self) k \<and>
            fst (currency_iso_from_country upper k self) \<noteq> Inr None) \<and>
         (\<forall>e S. fst (countries_from_currency_iso upper c self) = Inr S \<and>
                 fst (country_from_currency_iso upper c self) = Inl e \<longrightarrow>
            e = FxCodesException
                  [Text ''No unique ownership for ISO '', Quoted c,
                   Text '' used by: '', SetRepr S] \<and>
            S = countries_of_iso upper (data_file_json self) c \<and>
            fst (country_from_currency_iso upper c self) \<noteq> Inr None) \<and>
         (\<forall>e e' S S'. fst (currency_isos_from_country upper k self) = Inr S \<and>
                 fst (currency_iso_from_country upper k self) = Inl e \<and>
                 fst (countries_from_currency_iso upper c self) = Inr S' \<and>
                 fst (country_from_currency_iso upper c self) = Inl e' \<longrightarrow>
            exception_class e = exception_class e' \<and> e \<noteq> e') \<and>
         (has_entities (data_file_json self) \<longrightarrow>
            fst (currency_isos_from_country upper k self) =
              Inr (isos_of_country upper (data_file_json self) k) \<and>
            fst (countries_from_currency_iso upper c self) =
              Inr (countries_of_iso upper (data_file_json self) c))"
proof (cases "has_entities (data_file_json self)")
  case True
  let ?d = "data_file_json self"
  have r1: "fst (currency_iso_from_country upper k self) = currency_iso_outcome upper ?d k"
    using returns_fst [OF run_currency_iso_from_country [OF assms, of k]] True by simp
  have r2: "fst (country_from_currency_iso upper c self) = country_outcome upper ?d c"
    using returns_fst [OF run_country_from_currency_iso [OF assms, of c]] True by simp
  have s1: "fst (currency_isos_from_country upper k self) = Inr (isos_of_country upper ?d k)"
    using currency_isos_from_country_value [OF assms, of k] True by simp
  have s2: "fst (countries_from_currency_iso upper c self) = Inr (countries_of_iso upper ?d c)"
    using countries_from_currency_iso_value [OF assms, of c] True by simp
  have e1: "e = FxCodesException
                  [Text ''No unique currency ISO for country ISO '', Quoted k,
                   Text '' possibilities: '', SetRepr (isos_of_country upper ?d k)]"
    if "currency_iso_outcome upper ?d k = Inl e" for e
    using that by (simp add: currency_iso_outcome_def Let_def split: if_splits)
  have e2: "e = FxCodesException
                  [Text ''No unique ownership for ISO '', Quoted c,
                   Text '' used by: '', SetRepr (countries_of_iso upper ?d c)]"
    if "country_outcome upper ?d c = Inl e" for e
    using that by (simp add: country_outcome_def Let_def split: if_splits)
  show ?thesis
    unfolding r1 r2 s1 s2 using e1 e2 by auto
next
  case False
  have "fst (currency_iso_from_country upper k self) = Inl (KeyError ''Entity'')"
    using returns_fst [OF run_currency_iso_from_country [OF assms, of k]] False by simp
  moreover have "fst (country_from_currency_iso upper c self) = Inl (KeyError ''Entity'')"
    using returns_fst [OF run_country_from_currency_iso [OF assms, of c]] False by simp
  moreover have "fst (currency_isos_from_country upper k self) = Inl (KeyError ''Entity'')"
    using currency_isos_from_country_value [OF assms, of k] False by simp
  moreover have "fst (countries_from_currency_iso upper c self) = Inl (KeyError ''Entity'')"
    using countries_from_currency_iso_value [OF assms, of c] False by simp
  ultimately show ?thesis
    using False by simp
qed

text \<open>
  C3 at the example data: CU has two currencies and no primary one, the euro two users and
  no owner.
\<close>

theorem ambiguity_failures_witness:
  "wf_fx ascii_upper (FxCodes example_data) \<and>
   fst (currency_iso_from_country ascii_upper ''cu'' (FxCodes example_data)) =
     Inl (FxCodesException
           [Text ''No unique currency ISO for country ISO '', Quoted ''cu'',
            Text '' possibilities: '', SetRepr {''CUP'', ''CUC''}]) \<and>
   fst (country_from_currency_iso ascii_upper ''eur'' (FxCodes example_data)) =
     Inl (FxCodesException
           [Text ''No unique ownership for ISO '', Quoted ''eur'',
            Text '' used by: '', SetRepr {''FR'', ''DE''}])"
proof -
  have wf: "wf_fx ascii_upper (FxCodes example_data)"
    by (rule wf_FxCodes)
  have "isl (currency_iso_outcome ascii_upper example_data ''cu'')"
    by (simp add: currency_iso_outcome_def example_isos example_primary)
  then obtain e
    where e: "fst (currency_iso_from_country ascii_upper ''cu'' (FxCodes example_data)) = Inl e"
    by (auto simp add: isl_def example_run)
  have "isl (country_outcome ascii_upper example_data ''eur'')"
    by (simp add: country_outcome_def example_countries example_owner)
  then obtain e'
    where e': "fst (country_from_currency_iso ascii_upper ''eur'' (FxCodes example_data)) = Inl e'"
    by (auto simp add: isl_def example_run)
  have s: "fst (currency_isos_from_country ascii_upper ''cu'' (FxCodes example_data)) =
      Inr {''CUP'', ''CUC''}"
    "fst (countries_from_currency_iso ascii_upper ''eur'' (FxCodes example_data)) =
      Inr {''FR'', ''DE''}"
    by (simp_all add: example_run example_isos example_countries)
  from ambiguity_failures [OF wf, of "''cu''" "''eur''"] e e' s
  show ?thesis
    using wf by simp
qed

text \<open>
  C3 as stated fails: the failure for an ambiguous currency and the failure for an
  ambiguous owner are not of distinct kinds, both are of class \<^verbatim>\<open>FxCodesException\<close>.
\<close>

theorem both_failures_same_class:
  "map_sum exception_class id
     (fst (currency_iso_from_country ascii_upper ''cu'' (FxCodes example_data))) =
     Inl ''FxCodesException'' \<and>
   map_sum exception_class id
     (fst (country_from_currency_iso ascii_upper ''eur'' (FxCodes example_data))) =
     Inl ''FxCodesException''"
  by (simp add: example_run currency_iso_outcome_def country_outcome_def example_isos
        example_primary example_countries example_owner)

section \<open>The plain lookups\<close>

text \<open>
  C5, as the code has it. Let \<open>s\<close> and \<open>s'\<close> be two strings with the same upper-case
  form, \<^verbatim>\<open>s.upper() == s'.upper()\<close>, whatever function \<^verbatim>\<open>str.upper()\<close> is, and take the
  object in any two well-formed states over the same data file. The four plain lookups
  have the same outcome for \<open>s\<close> and for \<open>s'\<close>: the same value, or the same exception;
  the two disambiguating lookups return the same value for both, or raise for both (the
  message of the exception quotes the key as it was typed).
\<close>

theorem lookups_ignore_case:
  assumes "wf_fx upper a" and "wf_fx upper b" and "data_file_json a = data_file_json b"
    and "upper s = upper s'"
  shows "fst (currency_from_currency_iso upper s a) = fst (currency_from_currency_iso upper s' b) \<and>
         fst (currency_iso_from_currency upper s a) = fst (currency_iso_from_currency upper s' b) \<and>
         fst (currency_isos_from_country upper s a) = fst (currency_isos_from_country upper s' b) \<and>
         fst (countries_from_currency_iso upper s a) =
           fst (countries_from_currency_iso upper s' b) \<and>
         returned (fst (currency_iso_from_country upper s a)) =
           returned (fst (currency_iso_from_country upper s' b)) \<and>
         returned (fst (country_from_currency_iso upper s a)) =
           returned (fst (country_from_currency_iso upper s' b))"
proof (intro conjI)
  show "fst (currency_from_currency_iso upper s a) = fst (currency_from_currency_iso upper s' b)"
    by (simp add: currency_from_currency_iso_value [OF assms(1)]
          currency_from_currency_iso_value [OF assms(2)] assms(3)
          names_of_iso_upper [of upper s s', OF assms(4)])
  show "fst (currency_iso_from_currency upper s a) = fst (currency_iso_from_currency upper s' b)"
    by (simp add: currency_iso_from_currency_value [OF assms(1)]
          currency_iso_from_currency_value [OF assms(2)] assms(3)
          isos_of_name_upper [of upper s s', OF assms(4)])
  show "fst (currency_isos_from_country upper s a) = fst (currency_isos_from_country upper s' b)"
    by (simp add: currency_isos_from_country_value [OF assms(1)]
          currency_isos_from_country_value [OF assms(2)] assms(3)
          isos_of_country_upper [of upper s s', OF assms(4)])
  show "fst (countries_from_currency_iso upper s a) =
          fst (countries_from_currency_iso upper s' b)"
    by (simp add: countries_from_currency_iso_value [OF assms(1)]
          countries_from_currency_iso_value [OF assms(2)] assms(3)
          countries_of_iso_upper [of upper s s', OF assms(4)])
  show "returned (fst (currency_iso_from_country upper s a)) =
          returned (fst (currency_iso_from_country upper s' b))"
    using returned_currency_iso_outcome [of upper s s' "data_file_json b", OF assms(4)]
    by (simp add: returns_fst [OF run_currency_iso_from_country [OF assms(1)]]
          returns_fst [OF run_currency_iso_from_country [OF assms(2)]] assms(3) returned_def)
  show "returned (fst (country_from_currency_iso upper s a)) =
          returned (fst (country_from_currency_iso upper s' b))"
    using returned_country_outcome [of upper s s' "data_file_json b", OF assms(4)]
    by (simp add: returns_fst [OF run_country_from_currency_iso [OF assms(1)]]
          returns_fst [OF run_country_from_currency_iso [OF assms(2)]] assms(3) returned_def)
qed

text \<open>
  C5 at the example data, with the upper case of ASCII strings: usd, Usd and USD all give
  the name of the US dollar.
\<close>

theorem lookups_ignore_case_witness:
  "wf_fx ascii_upper (FxCodes example_data) \<and>
   ascii_upper ''usd'' = ascii_upper ''Usd'' \<and> ascii_upper ''usd'' = ascii_upper ''USD'' \<and>
   fst (currency_from_currency_iso ascii_upper ''usd'' (FxCodes example_data)) =
     Inr (Some ''US Dollar'') \<and>
   fst (currency_from_currency_iso ascii_upper ''Usd'' (FxCodes example_data)) =
     Inr (Some ''US Dollar'') \<and>
   fst (currency_from_currency_iso ascii_upper ''USD'' (FxCodes example_data)) =
     Inr (Some ''US Dollar'')"
proof -
  have wf: "wf_fx ascii_upper (FxCodes example_data)"
    by (rule wf_FxCodes)
  have u: "ascii_upper ''usd'' = ascii_upper ''Usd''" "ascii_upper ''usd'' = ascii_upper ''USD''"
    by (simp_all add: example_names)
  have "fst (currency_from_currency_iso ascii_upper ''USD'' (FxCodes example_data)) =
      Inr (Some ''US Dollar'')"
    by (simp add: example_run example_names)
  moreover have "fst (currency_from_currency_iso ascii_upper ''usd'' (FxCodes example_data)) =
      fst (currency_from_currency_iso ascii_upper ''USD'' (FxCodes example_data))"
    using lookups_ignore_case [OF wf wf refl u(2)] by simp
  moreover have "fst (currency_from_currency_iso ascii_upper ''usd'' (FxCodes example_data)) =
      fst (currency_from_currency_iso ascii_upper ''Usd'' (FxCodes example_data))"
    using lookups_ignore_case [OF wf wf refl u(1)] by simp
  ultimately show ?thesis
    using wf u by simp
qed

text \<open>
  C5 as stated fails: two casing variants of one string need not have the same upper-case
  form. The strings of the first pair are a country name written with a sharp s in lower
  case and the same name written in capitals with the capital sharp s, and they have the
  same lower-case form; \<^verbatim>\<open>str.upper()\<close> turns the sharp s into SS and leaves the capital
  sharp s as it is, so the first is found under the key that the index holds and the second
  is not. The second pair does the same to \<^verbatim>\<open>currency_from_currency_iso\<close>, on a code that is
  the upper case of a string with a sharp s.
\<close>

theorem casing_variants_differ:
  "german_lower (''WEI'' @ capital_sharp_s @ ''RUSSLAND'') =
     german_lower (''wei'' @ sharp_s @ ''russland'') \<and>
   german_upper (''wei'' @ sharp_s @ ''russland'') = ''WEISSRUSSLAND'' \<and>
   german_upper (''WEI'' @ capital_sharp_s @ ''RUSSLAND'') =
     ''WEI'' @ capital_sharp_s @ ''RUSSLAND'' \<and>
   fst (currency_isos_from_country german_upper (''wei'' @ sharp_s @ ''russland'')
          (FxCodes sharp_s_data)) = Inr {''BYN''} \<and>
   fst (currency_isos_from_country german_upper (''WEI'' @ capital_sharp_s @ ''RUSSLAND'')
          (FxCodes sharp_s_data)) = Inr {} \<and>
   german_lower (capital_sharp_s @ ''S'') = german_lower (sharp_s @ ''s'') \<and>
   fst (currency_from_currency_iso german_upper (sharp_s @ ''s'') (FxCodes sharp_s_data)) =
     Inr (Some ''Test Unit'') \<and>
   fst (currency_from_currency_iso german_upper (capital_sharp_s @ ''S'')
          (FxCodes sharp_s_data)) = Inr None"
proof -
  have "fst (currency_from_currency_iso german_upper (sharp_s @ ''s'') (FxCodes sharp_s_data)) =
     Inr (Some ''Test Unit'')"
    using currency_from_currency_iso_value
      [OF wf_FxCodes [of german_upper sharp_s_data], of "sharp_s @ ''s''"]
    by (simp add: data_FxCodes example_complete sharp_s_facts)
  moreover have "fst (currency_from_currency_iso german_upper (capital_sharp_s @ ''S'')
          (FxCodes sharp_s_data)) = Inr None"
    using currency_from_currency_iso_value
      [OF wf_FxCodes [of german_upper sharp_s_data], of "capital_sharp_s @ ''S''"]
    by (simp add: data_FxCodes example_complete sharp_s_facts)
  moreover have "fst (currency_isos_from_country german_upper (''wei'' @ sharp_s @ ''russland'')
          (FxCodes sharp_s_data)) = Inr {''BYN''}"
    using currency_isos_from_country_value
      [OF wf_FxCodes [of german_upper sharp_s_data], of "''wei'' @ sharp_s @ ''russland''"]
    by (simp only: data_FxCodes example_complete sharp_s_facts if_True)
  moreover have "fst (currency_isos_from_country german_upper
          (''WEI'' @ capital_sharp_s @ ''RUSSLAND'') (FxCodes sharp_s_data)) = Inr {}"
    using currency_isos_from_country_value
      [OF wf_FxCodes [of german_upper sharp_s_data],
       of "''WEI'' @ capital_sharp_s @ ''RUSSLAND''"]
    by (simp only: data_FxCodes example_complete sharp_s_facts if_True)
  ultimately show ?thesis
    by (simp only: sharp_s_facts simp_thms)
qed

text \<open>
  C6, as the code has it. Let every record with a code have a currency name, and let
  \<open>c\<close> be the code of a record of the data file, with \<open>c\<close> its own upper-case form. Then
  looking up the name of \<open>c\<close> finds a name \<open>n\<close>. If moreover every record with a code
  whose currency name has the upper-case form of \<open>n\<close> has the code \<open>c\<close>, then looking up
  the code of \<open>n\<close>, on the object the first lookup left, gives \<open>c\<close> back.
\<close>

theorem currency_round_trip:
  assumes "wf_fx upper self" and "has_currencies (data_file_json self)"
    and "e \<in> set (data_file_json self)" and "AlphabeticCode e = Some c" and "upper c = c"
  shows "\<exists>n. fst (currency_from_currency_iso upper c self) = Inr (Some n) \<and>
             ((\<forall>e' \<in> set (data_file_json self).
                 AlphabeticCode e' \<noteq> None \<and> map_option upper (Currency e') = Some (upper n)
                 \<longrightarrow> AlphabeticCode e' = Some c) \<longrightarrow>
              fst (currency_iso_from_currency upper n
                     (snd (currency_from_currency_iso upper c self))) = Inr (Some c))"
proof -
  let ?d = "data_file_json self"
  let ?s1 = "snd (currency_from_currency_iso upper c self)"
  let ?n = "last (names_of_iso upper ?d c)"
  note run = run_currency_from_currency_iso [OF assms(1), of c]
  have wf1: "wf_fx upper ?s1"
    using run by (rule run_wf)
  have d1: "data_file_json ?s1 = ?d"
    using run by (rule run_data)
  obtain x where x: "Currency e = Some x"
    using assms(2,3,4) by (auto simp add: has_currencies_def)
  have "x \<in> set (names_of_iso upper ?d c)"
    unfolding in_names_of_iso using assms(3,4,5) x by (intro bexI [of _ e]) simp_all
  then have ne: "names_of_iso upper ?d c \<noteq> []"
    by auto
  then have "?n \<in> set (names_of_iso upper ?d c)"
    by (rule last_in_set)
  then obtain e1 where e1: "e1 \<in> set ?d" "AlphabeticCode e1 = Some c" "Currency e1 = Some ?n"
    using assms(5) by (auto simp add: in_names_of_iso)
  have first: "fst (currency_from_currency_iso upper c self) = Inr (Some ?n)"
    using ne assms(2) by (simp add: currency_from_currency_iso_value [OF assms(1)])
  have second: "fst (currency_iso_from_currency upper ?n ?s1) = Inr (Some c)"
    if only: "\<forall>e' \<in> set ?d.
        AlphabeticCode e' \<noteq> None \<and> map_option upper (Currency e') = Some (upper ?n)
        \<longrightarrow> AlphabeticCode e' = Some c"
  proof -
    have "c \<in> set (isos_of_name upper ?d ?n)"
      unfolding in_isos_of_name using e1 by (intro bexI [of _ e1]) simp_all
    then have ne2: "isos_of_name upper ?d ?n \<noteq> []"
      by auto
    then have "last (isos_of_name upper ?d ?n) \<in> set (isos_of_name upper ?d ?n)"
      by (rule last_in_set)
    then obtain e2 where e2: "e2 \<in> set ?d" "map_option upper (Currency e2) = Some (upper ?n)"
        "AlphabeticCode e2 = Some (last (isos_of_name upper ?d ?n))"
      by (auto simp add: in_isos_of_name)
    have "AlphabeticCode e2 \<noteq> None \<and> map_option upper (Currency e2) = Some (upper ?n)"
      using e2 by simp
    with only e2(1) have "AlphabeticCode e2 = Some c"
      by blast
    then have "last (isos_of_name upper ?d ?n) = c"
      using e2(3) by simp
    then show ?thesis
      using ne2 assms(2) by (simp add: currency_iso_from_currency_value [OF wf1] d1)
  qed
  from first second show ?thesis
    by blast
qed

text \<open>
  C6 at the example data: USD gives US Dollar, which gives USD.
\<close>

theorem currency_round_trip_witness:
  "wf_fx ascii_upper (FxCodes example_data) \<and> has_currencies example_data \<and>
   rec ''US'' ''US Dollar'' (Some ''USD'') True False \<in> set example_data \<and>
   ascii_upper ''USD'' = ''USD'' \<and>
   fst (currency_from_currency_iso ascii_upper ''USD'' (FxCodes example_data)) =
     Inr (Some ''US Dollar'') \<and>
   fst (currency_iso_from_currency ascii_upper ''US Dollar''
          (snd (currency_from_currency_iso ascii_upper ''USD'' (FxCodes example_data)))) =
     Inr (Some ''USD'')"
proof -
  have wf: "wf_fx ascii_upper (FxCodes example_data)"
    by (rule wf_FxCodes)
  have n: "fst (currency_from_currency_iso ascii_upper ''USD'' (FxCodes example_data)) =
      Inr (Some ''US Dollar'')"
    by (simp add: example_run example_names)
  have "\<exists>n. fst (currency_from_currency_iso ascii_upper ''USD'' (FxCodes example_data)) =
            Inr (Some n) \<and>
          ((\<forall>e' \<in> set (data_file_json (FxCodes example_data)).
              AlphabeticCode e' \<noteq> None \<and>
              map_option ascii_upper (Currency e') = Some (ascii_upper n)
              \<longrightarrow> AlphabeticCode e' = Some ''USD'') \<longrightarrow>
           fst (currency_iso_from_currency ascii_upper n
                 (snd (currency_from_currency_iso ascii_upper ''USD'' (FxCodes example_data)))) =
             Inr (Some ''USD''))"
  proof (rule currency_round_trip [OF wf])
    show "has_currencies (data_file_json (FxCodes example_data))"
      by (simp add: data_FxCodes example_complete)
    show "rec ''US'' ''US Dollar'' (Some ''USD'') True False
            \<in> set (data_file_json (FxCodes example_data))"
      by (simp add: data_FxCodes example_round_trip)
    show "AlphabeticCode (rec ''US'' ''US Dollar'' (Some ''USD'') True False) = Some ''USD''"
      by (simp add: rec_def)
    show "ascii_upper ''USD'' = ''USD''"
      by (simp add: example_names)
  qed
  with n have "fst (currency_iso_from_currency ascii_upper ''US Dollar''
          (snd (currency_from_currency_iso ascii_upper ''USD'' (FxCodes example_data)))) =
     Inr (Some ''USD'')"
    using example_round_trip(2) by (simp add: data_FxCodes)
  with n show ?thesis
    using wf by (simp add: example_round_trip example_names example_complete)
qed

text \<open>
  C6 as stated fails. Where two codes have the same currency name, the name of the first
  code leads to the second code; a code that the data file holds in lower case is not
  found at all, the key of the query being upper-cased and the key of the index not; and
  where a record with a code has no currency name, the lookup raises \<^verbatim>\<open>KeyError\<close>.
\<close>

theorem round_trip_broken_by_shared_name:
  "rec ''AA'' ''Dollar'' (Some ''AAA'') False False \<in> set shared_name_data \<and>
   fst (currency_from_currency_iso ascii_upper ''AAA'' (FxCodes shared_name_data)) =
     Inr (Some ''Dollar'') \<and>
   fst (currency_iso_from_currency ascii_upper ''Dollar''
          (snd (currency_from_currency_iso ascii_upper ''AAA'' (FxCodes shared_name_data)))) =
     Inr (Some ''BBB'') \<and>
   rec ''US'' ''US Dollar'' (Some ''usd'') False False \<in> set lower_code_data \<and>
   fst (currency_from_currency_iso ascii_upper ''usd'' (FxCodes lower_code_data)) = Inr None \<and>
   fst (currency_from_currency_iso ascii_upper ''USD'' (FxCodes no_currency_data)) =
     Inl (KeyError ''Currency'')"
proof -
  have wf: "wf_fx ascii_upper (FxCodes shared_name_data)"
    by (rule wf_FxCodes)
  note run = run_currency_from_currency_iso [OF wf, of "''AAA''"]
  have wf1: "wf_fx ascii_upper
      (snd (currency_from_currency_iso ascii_upper ''AAA'' (FxCodes shared_name_data)))"
    using run by (rule run_wf)
  have d1: "data_file_json
      (snd (currency_from_currency_iso ascii_upper ''AAA'' (FxCodes shared_name_data)))
        = shared_name_data"
    using run_data [OF run] by (simp add: data_FxCodes)
  have "fst (currency_from_currency_iso ascii_upper ''AAA'' (FxCodes shared_name_data)) =
      Inr (Some ''Dollar'')"
    by (simp add: currency_from_currency_iso_value [OF wf] data_FxCodes counter_facts
          example_complete)
  moreover have "fst (currency_iso_from_currency ascii_upper ''Dollar''
      (snd (currency_from_currency_iso ascii_upper ''AAA'' (FxCodes shared_name_data)))) =
      Inr (Some ''BBB'')"
    by (simp add: currency_iso_from_currency_value [OF wf1] d1 counter_facts example_complete)
  moreover have "fst (currency_from_currency_iso ascii_upper ''usd'' (FxCodes lower_code_data)) =
      Inr None"
    by (simp add: currency_from_currency_iso_value [OF wf_FxCodes] data_FxCodes counter_facts
          example_complete)
  moreover have "fst (currency_from_currency_iso ascii_upper ''USD'' (FxCodes no_currency_data)) =
      Inl (KeyError ''Currency'')"
    by (simp add: currency_from_currency_iso_value [OF wf_FxCodes] data_FxCodes example_complete)
  ultimately show ?thesis
    by (simp add: counter_facts)
qed




section \<open>The two commands\<close>

text \<open>
  C8. \<^verbatim>\<open>currency_iso_from_country\<close> of currency\_code.py looks up the text itself when
  it is a known country code, else the code of the country that the text matches as a
  name, else the text itself. It calls \<^verbatim>\<open>FX_CODES.currency_iso_from_country\<close> on that
  key. On \<^verbatim>\<open>None\<close> it prints the line \<^verbatim>\<open>\<close>Unknown country or organization:'' followed by
  the text it was given, and returns \<open>-1\<close>; on a code it prints the text, the code and
  the currency name that \<^verbatim>\<open>currency_from_currency_iso\<close> gives for the code, and returns
  \<open>0\<close>; an exception of either lookup passes through.
\<close>

theorem lookup_currency_by_country:
  assumes "wf_fx upper FX"
  shows "let key = (if country_from_iso cc text \<noteq> None then text
                    else case match_country cc text of
                           Some name \<Rightarrow> iso_from_country cc name
                         | None \<Rightarrow> text);
             r = fst (currency_iso_from_country upper key FX);
             out = fst (cli_currency_iso_from_country upper cc text FX)
         in (r = Inr None \<longrightarrow>
               out = Inr ([''Unknown country or organization: '' @ text], - 1) \<and>
               mentions ''unknown country or organization''
                 (''Unknown country or organization: '' @ text)) \<and>
            (\<forall>code name. r = Inr (Some code) \<and>
                 fst (currency_from_currency_iso upper code FX) = Inr name \<longrightarrow>
               out = Inr ([text @ '': '' @ code @ '' ('' @ py_str name @ '')''], 0)) \<and>
            (\<forall>code e. r = Inr (Some code) \<and>
                 fst (currency_from_currency_iso upper code FX) = Inl e \<longrightarrow> out = Inl e) \<and>
            (\<forall>e. r = Inl e \<longrightarrow> out = Inl e)"
proof -
  have key: "(if country_from_iso cc text \<noteq> None then text
              else case match_country cc text of
                     Some name \<Rightarrow> iso_from_country cc name
                   | None \<Rightarrow> text) = country_code_of cc text"
    by (simp add: country_code_of_def)
  show ?thesis
    unfolding Let_def key cli_currency_iso_from_country_value [OF assms]
    using mentions_unknown_country by simp
qed

text \<open>
  C9, as the code has it. \<^verbatim>\<open>country_from_currency_iso\<close> of currency\_code.py calls
  \<^verbatim>\<open>FX_CODES.country_from_currency_iso\<close> on its input. On \<^verbatim>\<open>None\<close> it prints the line
  \<^verbatim>\<open>\<close>Unknown currency ISO:'' followed by the input, and returns \<open>-1\<close>; on a country it
  prints the input, the country (its display name when the country is a known country
  code) and the currency name of the input, and returns \<open>0\<close>; an exception of either
  lookup passes through.
\<close>

theorem lookup_country_by_currency:
  assumes "wf_fx upper FX"
  shows "let r = fst (country_from_currency_iso upper code FX);
             out = fst (cli_country_from_currency_iso upper cc code FX)
         in (r = Inr None \<longrightarrow> out = Inr ([''Unknown currency ISO: '' @ code], - 1)) \<and>
            (\<forall>country name. r = Inr (Some country) \<and>
                 fst (currency_from_currency_iso upper code FX) = Inr name \<longrightarrow>
               out = Inr ([code @ '': '' @
                            (if country \<in> codes cc then getitem cc country else country) @
                            '' ('' @ py_str name @ '')''], 0)) \<and>
            (\<forall>country e. r = Inr (Some country) \<and>
                 fst (currency_from_currency_iso upper code FX) = Inl e \<longrightarrow> out = Inl e) \<and>
            (\<forall>e. r = Inl e \<longrightarrow> out = Inl e)"
  unfolding Let_def cli_country_from_currency_iso_value [OF assms] by simp

text \<open>
  C8 at the example data: a country code, a country name, an unknown name, and a country
  with two currencies of which none is primary.
\<close>

theorem lookup_currency_by_country_witness:
  "wf_fx ascii_upper (FxCodes example_data) \<and>
   fst (cli_currency_iso_from_country ascii_upper example_country_codes ''us''
          (FxCodes example_data)) =
     Inr ([''us: USD (US Dollar)''], 0) \<and>
   fst (cli_currency_iso_from_country ascii_upper example_country_codes ''Switzerland''
          (FxCodes example_data)) =
     Inr ([''Switzerland: CHF (Swiss Franc)''], 0) \<and>
   fst (cli_currency_iso_from_country ascii_upper example_country_codes ''Nowhereland''
          (FxCodes example_data)) =
     Inr ([''Unknown country or organization: Nowhereland''], - 1) \<and>
   fst (cli_currency_iso_from_country ascii_upper example_country_codes ''CU''
          (FxCodes example_data)) =
     Inl (FxCodesException
           [Text ''No unique currency ISO for country ISO '', Quoted ''CU'',
            Text '' possibilities: '', SetRepr {''CUP'', ''CUC''}])"
proof -
  have wf: "wf_fx ascii_upper (FxCodes example_data)"
    by (rule wf_FxCodes)
  note c = lookup_currency_by_country [OF wf, of example_country_codes, unfolded Let_def]
  have "fst (cli_currency_iso_from_country ascii_upper example_country_codes ''us''
      (FxCodes example_data)) = Inr ([''us: USD (US Dollar)''], 0)"
    using c [of "''us''"]
    by (simp add: example_resolution example_run example_currency_outcomes example_names
          py_str_def)
  moreover have "fst (cli_currency_iso_from_country ascii_upper example_country_codes
      ''Switzerland'' (FxCodes example_data)) = Inr ([''Switzerland: CHF (Swiss Franc)''], 0)"
    using c [of "''Switzerland''"]
    by (simp add: example_resolution example_run example_currency_outcomes example_isos_upper
          py_str_def)
  moreover have "fst (cli_currency_iso_from_country ascii_upper example_country_codes
      ''Nowhereland'' (FxCodes example_data)) =
      Inr ([''Unknown country or organization: Nowhereland''], - 1)"
    using c [of "''Nowhereland''"]
    by (simp add: example_resolution example_run example_currency_outcomes)
  moreover have "fst (cli_currency_iso_from_country ascii_upper example_country_codes ''CU''
          (FxCodes example_data)) =
     Inl (FxCodesException
           [Text ''No unique currency ISO for country ISO '', Quoted ''CU'',
            Text '' possibilities: '', SetRepr {''CUP'', ''CUC''}])"
    using c [of "''CU''"]
    by (simp add: example_resolution example_run example_currency_outcomes)
  ultimately show ?thesis
    using wf by simp
qed

text \<open>
  C9 at the example data: a code with an owner, a code with one country, an unknown code,
  and a code with two countries and no owner.
\<close>

theorem lookup_country_by_currency_witness:
  "wf_fx ascii_upper (FxCodes example_data) \<and>
   fst (cli_country_from_currency_iso ascii_upper example_country_codes ''usd''
          (FxCodes example_data)) =
     Inr ([''usd: United States (US Dollar)''], 0) \<and>
   fst (cli_country_from_currency_iso ascii_upper example_country_codes ''chf''
          (FxCodes example_data)) =
     Inr ([''chf: Switzerland (Swiss Franc)''], 0) \<and>
   fst (cli_country_from_currency_iso ascii_upper example_country_codes ''ZZZ''
          (FxCodes example_data)) =
     Inr ([''Unknown currency ISO: ZZZ''], - 1) \<and>
   fst (cli_country_from_currency_iso ascii_upper example_country_codes ''eur''
          (FxCodes example_data)) =
     Inl (FxCodesException
           [Text ''No unique ownership for ISO '', Quoted ''eur'',
            Text '' used by: '', SetRepr {''FR'', ''DE''}])"
proof -
  have wf: "wf_fx ascii_upper (FxCodes example_data)"
    by (rule wf_FxCodes)
  note c = lookup_country_by_currency [OF wf, of _ example_country_codes, unfolded Let_def]
  have "fst (cli_country_from_currency_iso ascii_upper example_country_codes ''usd''
      (FxCodes example_data)) = Inr ([''usd: United States (US Dollar)''], 0)"
    using c [of "''usd''"]
    by (simp add: example_resolution example_run example_country_outcomes example_isos_upper
          py_str_def)
  moreover have "fst (cli_country_from_currency_iso ascii_upper example_country_codes ''chf''
      (FxCodes example_data)) = Inr ([''chf: Switzerland (Swiss Franc)''], 0)"
    using c [of "''chf''"]
    by (simp add: example_resolution example_run example_country_outcomes example_isos_upper
          py_str_def)
  moreover have "fst (cli_country_from_currency_iso ascii_upper example_country_codes ''ZZZ''
      (FxCodes example_data)) = Inr ([''Unknown currency ISO: ZZZ''], - 1)"
    using c [of "''ZZZ''"]
    by (simp add: example_run example_country_outcomes)
  moreover have "fst (cli_country_from_currency_iso ascii_upper example_country_codes ''eur''
          (FxCodes example_data)) =
     Inl (FxCodesException
           [Text ''No unique ownership for ISO '', Quoted ''eur'',
            Text '' used by: '', SetRepr {''FR'', ''DE''}])"
    using c [of "''eur''"]
    by (simp add: example_run example_country_outcomes)
  ultimately show ?thesis
    using wf by simp
qed

text \<open>
  C9 as stated fails: for an unknown code the line printed is \<^verbatim>\<open>\<close>Unknown currency ISO: ZZZ'',
  and the words \<^verbatim>\<open>\<close>unknown currency code'' are not in it, in any letter case.
\<close>

theorem cli_unknown_currency_message:
  "fst (cli_country_from_currency_iso ascii_upper example_country_codes ''ZZZ''
          (FxCodes example_data)) =
     Inr ([''Unknown currency ISO: ZZZ''], - 1) \<and>
   \<not> mentions ''unknown currency code'' ''Unknown currency ISO: ZZZ''"
  using not_mentions_unknown_code
  by (simp add: cli_country_from_currency_iso_value [OF wf_FxCodes] example_run
        example_country_outcomes)

section \<open>Queries do not change the indexes\<close>

text \<open>
  C10. In every well-formed state, each of the six queries leaves a well-formed object
  over the same data file in which every index that had been built is the same index,
  and has the same outcome when called again with the same argument. After
  \<^verbatim>\<open>currency_isos_from_country\<close> and \<^verbatim>\<open>countries_from_currency_iso\<close> the set-valued
  index is the one built from the data file, and it has no entry for a key whose result
  was the empty set: the read with \<^verbatim>\<open>.get\<close> adds nothing. Where building the index raises,
  no index is stored.
\<close>

theorem queries_leave_indexes:
  assumes "wf_fx upper self"
  shows "stable upper (currency_from_currency_iso upper k) self \<and>
         stable upper (currency_iso_from_currency upper k) self \<and>
         stable upper (currency_isos_from_country upper k) self \<and>
         stable upper (countries_from_currency_iso upper k) self \<and>
         stable upper (currency_iso_from_country upper k) self \<and>
         stable upper (country_from_currency_iso upper k) self \<and>
         (\<forall>d. country_to_currency_isos_dict upper (load_entries (data_file_json self)) = Inr d
            \<longrightarrow> cache_country_to_currency_isos_map
                   (snd (currency_isos_from_country upper k self)) = Some d \<and>
                 (fst (currency_isos_from_country upper k self) = Inr {} \<longrightarrow>
                    d (upper k) = None)) \<and>
         (\<forall>e. country_to_currency_isos_dict upper (load_entries (data_file_json self)) = Inl e
            \<longrightarrow> cache_country_to_currency_isos_map
                   (snd (currency_isos_from_country upper k self)) = None) \<and>
         (\<forall>d. currency_iso_to_countries_dict (load_entries (data_file_json self)) = Inr d
            \<longrightarrow> cache_currency_iso_to_countries_map
                   (snd (countries_from_currency_iso upper k self)) = Some d \<and>
                 (fst (countries_from_currency_iso upper k self) = Inr {} \<longrightarrow>
                    d (upper k) = None)) \<and>
         (\<forall>e. currency_iso_to_countries_dict (load_entries (data_file_json self)) = Inl e
            \<longrightarrow> cache_currency_iso_to_countries_map
                   (snd (countries_from_currency_iso upper k self)) = None)"
proof (intro conjI allI impI)
  show "stable upper (currency_from_currency_iso upper k) self"
    using run_currency_from_currency_iso assms by (rule stableI)
  show "stable upper (currency_iso_from_currency upper k) self"
    using run_currency_iso_from_currency assms by (rule stableI)
  show "stable upper (currency_isos_from_country upper k) self"
    using run_currency_isos_from_country assms by (rule stableI)
  show "stable upper (countries_from_currency_iso upper k) self"
    using run_countries_from_currency_iso assms by (rule stableI)
  show "stable upper (currency_iso_from_country upper k) self"
    using run_currency_iso_from_country assms by (rule stableI)
  show "stable upper (country_from_currency_iso upper k) self"
    using run_country_from_currency_iso assms by (rule stableI)
next
  fix d
  assume d: "country_to_currency_isos_dict upper (load_entries (data_file_json self)) = Inr d"
  show "cache_country_to_currency_isos_map (snd (currency_isos_from_country upper k self)) =
          Some d"
    using assms d by (rule slot_after_currency_isos_from_country)
  assume "fst (currency_isos_from_country upper k self) = Inr {}"
  then have "(case d (upper k) of None \<Rightarrow> {} | Some s \<Rightarrow> s) = {}"
    using returns_fst [OF run_currency_isos_from_country [OF assms, of k]] d by simp
  with d show "d (upper k) = None"
    by (rule isos_index_None)
next
  fix d
  assume d: "currency_iso_to_countries_dict (load_entries (data_file_json self)) = Inr d"
  show "cache_currency_iso_to_countries_map (snd (countries_from_currency_iso upper k self)) =
          Some d"
    using assms d by (rule slot_after_countries_from_currency_iso)
  assume "fst (countries_from_currency_iso upper k self) = Inr {}"
  then have "(case d (upper k) of None \<Rightarrow> {} | Some s \<Rightarrow> s) = {}"
    using returns_fst [OF run_countries_from_currency_iso [OF assms, of k]] d by simp
  with d show "d (upper k) = None"
    by (rule countries_index_None)
next
  fix e
  assume e: "country_to_currency_isos_dict upper (load_entries (data_file_json self)) = Inl e"
  note run = run_currency_isos_from_country [OF assms, of k]
  show "cache_country_to_currency_isos_map (snd (currency_isos_from_country upper k self)) =
          None"
  proof (cases "cache_country_to_currency_isos_map
                  (snd (currency_isos_from_country upper k self))")
    case (Some v)
    with wf_slot_country_to_currency_isos_map [OF run_wf [OF run] Some] e show ?thesis
      by (simp add: run_data [OF run])
  qed simp
next
  fix e
  assume e: "currency_iso_to_countries_dict (load_entries (data_file_json self)) = Inl e"
  note run = run_countries_from_currency_iso [OF assms, of k]
  show "cache_currency_iso_to_countries_map (snd (countries_from_currency_iso upper k self)) =
          None"
  proof (cases "cache_currency_iso_to_countries_map
                  (snd (countries_from_currency_iso upper k self))")
    case (Some v)
    with wf_slot_currency_iso_to_countries_map [OF run_wf [OF run] Some] e show ?thesis
      by (simp add: run_data [OF run])
  qed simp
qed

text \<open>
  C10 at the example data, for a country and a code that are unknown.
\<close>

theorem queries_leave_indexes_witness:
  "wf_fx ascii_upper (FxCodes example_data) \<and>
   fst (currency_isos_from_country ascii_upper ''Nowhereland'' (FxCodes example_data)) = Inr {} \<and>
   stable ascii_upper (currency_isos_from_country ascii_upper ''Nowhereland'')
     (FxCodes example_data) \<and>
   (\<exists>d. country_to_currency_isos_dict ascii_upper (load_entries example_data) = Inr d \<and>
      cache_country_to_currency_isos_map
        (snd (currency_isos_from_country ascii_upper ''Nowhereland'' (FxCodes example_data))) =
        Some d \<and>
      d (ascii_upper ''Nowhereland'') = None) \<and>
   fst (countries_from_currency_iso ascii_upper ''ZZZ'' (FxCodes example_data)) = Inr {} \<and>
   stable ascii_upper (countries_from_currency_iso ascii_upper ''ZZZ'') (FxCodes example_data) \<and>
   (\<exists>d. currency_iso_to_countries_dict (load_entries example_data) = Inr d \<and>
      cache_currency_iso_to_countries_map
        (snd (countries_from_currency_iso ascii_upper ''ZZZ'' (FxCodes example_data))) = Some d \<and>
      d (ascii_upper ''ZZZ'') = None)"
proof -
  have wf: "wf_fx ascii_upper (FxCodes example_data)"
    by (rule wf_FxCodes)
  have e: "fst (currency_isos_from_country ascii_upper ''Nowhereland'' (FxCodes example_data)) =
        Inr {}"
      "fst (countries_from_currency_iso ascii_upper ''ZZZ'' (FxCodes example_data)) = Inr {}"
    by (simp_all add: example_run example_isos_upper)
  obtain d1 where d1: "country_to_currency_isos_dict ascii_upper (load_entries example_data) =
      Inr d1"
    using country_to_currency_isos_dict_ok [OF example_complete(1)] by blast
  obtain d2 where d2: "currency_iso_to_countries_dict (load_entries example_data) = Inr d2"
    using currency_iso_to_countries_dict_ok [OF example_complete(1)] by blast
  note q1 = queries_leave_indexes [OF wf, of "''Nowhereland''", unfolded data_FxCodes]
  note q2 = queries_leave_indexes [OF wf, of "''ZZZ''", unfolded data_FxCodes]
  have "cache_country_to_currency_isos_map
        (snd (currency_isos_from_country ascii_upper ''Nowhereland'' (FxCodes example_data))) =
        Some d1 \<and> d1 (ascii_upper ''Nowhereland'') = None"
    using q1 d1 e(1) by blast
  moreover have "cache_currency_iso_to_countries_map
        (snd (countries_from_currency_iso ascii_upper ''ZZZ'' (FxCodes example_data))) = Some d2 \<and>
      d2 (ascii_upper ''ZZZ'') = None"
    using q2 d2 e(2) by blast
  moreover have "stable ascii_upper (currency_isos_from_country ascii_upper ''Nowhereland'')
      (FxCodes example_data)"
    using q1 by blast
  moreover have "stable ascii_upper (countries_from_currency_iso ascii_upper ''ZZZ'')
      (FxCodes example_data)"
    using q2 by blast
  ultimately show ?thesis
    using wf e d1 d2 by blast
qed

end
